theory Spec2Isabelle
  imports Main "HOL-Library.AList"
begin

section \<open>Exceptions and console output\<close>

text \<open>
  Python exceptions are values. \<open>Exception m\<close> stands for any instance of a subclass of
  \<open>Exception\<close> other than the session error of the chat client (\<open>OSError\<close>,
  \<open>KeyError\<close>, \<open>TypeError\<close>, \<open>IndexError\<close>, \<open>AttributeError\<close>, ...), with
  \<open>m\<close> the text of \<open>str(e)\<close>. \<open>KeyboardInterrupt\<close>, \<open>SystemExit\<close> and
  \<open>asyncio.CancelledError\<close> derive from \<open>BaseException\<close> only, so an
  \<open>except Exception\<close> clause lets them pass.
\<close>

datatype exn =
    Exception string
  | SessionClosedError
  | KeyboardInterrupt
  | SystemExit int
  | CancelledError

fun is_Exception :: "exn \<Rightarrow> bool" where
  "is_Exception (Exception m) = True"
| "is_Exception SessionClosedError = True"
| "is_Exception KeyboardInterrupt = False"
| "is_Exception (SystemExit n) = False"
| "is_Exception CancelledError = False"

fun exn_str :: "exn \<Rightarrow> string" where
  "exn_str (Exception m) = m"
| "exn_str SessionClosedError = ''''"
| "exn_str KeyboardInterrupt = ''''"
| "exn_str (SystemExit n) = ''''"
| "exn_str CancelledError = ''''"

text \<open>
  A statement block run on a state \<open>'s\<close> yields \<open>(None, s')\<close> when it completes and
  \<open>(Some e, s')\<close> when it raises \<open>e\<close>; \<open>s'\<close> holds the effects that happened before.
  \<open>try_except_Exception r h\<close> is \<open>try: r  except Exception as e: h e\<close>.
\<close>

definition try_except_Exception ::
  "exn option \<times> 's \<Rightarrow> (exn \<Rightarrow> 's \<Rightarrow> exn option \<times> 's) \<Rightarrow> exn option \<times> 's" where
  "try_except_Exception r h =
     (case r of
        (None, s) \<Rightarrow> (None, s)
      | (Some e, s) \<Rightarrow> if is_Exception e then h e s else (Some e, s))"

section \<open>Files of the backup manager\<close>

text \<open>
  The manager touches three places: the file at \<open>base_filename\<close>, the file at
  \<open>base_filename + ".tmp"\<close> and the entries of the backup directory. A file holds either
  the complete JSON text of a document (\<open>Json d\<close>; \<open>json.dump\<close> itself is library code
  and its text format is not modelled) or the truncated output of a dump that did not
  finish (\<open>Partial\<close>), together with its modification time. The backup directory is the
  list of its entries in the order \<open>os.listdir\<close> reports them. \<open>stdout\<close> collects the
  printed lines.
\<close>

datatype 'd contents = Json 'd | Partial

record 'd disk_file =
  content :: "'d contents"
  mtime :: nat

record 'd world =
  target :: "'d disk_file option"
  temp :: "'d disk_file option"
  backups :: "(string \<times> 'd disk_file) list"
  stdout :: "string list"

text \<open>
  What the operating system answers during one call of \<open>save_data\<close>: the clock (the
  modification time given to a file written now, and the text of
  \<open>datetime.now().strftime("%Y%m%d_%H%M%S")\<close>), and for each file operation whether it fails
  (\<open>Some m\<close>: it raises an \<open>OSError\<close>, or for the dump also a \<open>TypeError\<close>, with text
  \<open>m\<close>). \<open>os.path.exists\<close> never raises.
\<close>

record io =
  clock :: nat
  strftime :: string
  open_temp_err :: "string option"
  dump_err :: "string option"
  copy_err :: "string option"
  listdir_err :: "string option"
  getmtime_err :: "string \<Rightarrow> string option"
  remove_backup_err :: "string \<Rightarrow> string option"
  remove_target_err :: "string option"
  rename_err :: "string option"
  remove_temp_err :: "string option"
  open_target_err :: "string option"
  dump_target_err :: "string option"

definition print :: "string \<Rightarrow> 'd world \<Rightarrow> 'd world" where
  "print s w = w\<lparr>stdout := stdout w @ [s]\<rparr>"

definition startswith :: "string \<Rightarrow> string \<Rightarrow> bool" where
  "startswith s p = (take (length p) s = p)"

definition endswith :: "string \<Rightarrow> string \<Rightarrow> bool" where
  "endswith s p = (length p \<le> length s \<and> drop (length s - length p) s = p)"

text \<open>\<open>os.path.basename\<close>, \<open>os.path.dirname\<close> and \<open>os.path.join\<close> for POSIX paths.\<close>

definition basename :: "string \<Rightarrow> string" where
  "basename p = rev (takeWhile (\<lambda>c. c \<noteq> CHR ''/'') (rev p))"

definition dirname :: "string \<Rightarrow> string" where
  "dirname p =
     (let hd = rev (dropWhile (\<lambda>c. c \<noteq> CHR ''/'') (rev p))
      in if hd \<noteq> [] \<and> (\<exists>c \<in> set hd. c \<noteq> CHR ''/'')
         then rev (dropWhile (\<lambda>c. c = CHR ''/'') (rev hd)) else hd)"

definition path_join :: "string \<Rightarrow> string \<Rightarrow> string" where
  "path_join a b =
     (if startswith b ''/'' then b
      else if a = [] \<or> endswith a ''/'' then a @ b
      else a @ ''/'' @ b)"

section \<open>BackupManager\<close>

record backup_manager =
  base_filename :: string
  max_backups :: int
  backup_dir :: string

definition BackupManager :: "string \<Rightarrow> int \<Rightarrow> backup_manager" where
  "BackupManager base_filename' max_backups' =
     \<lparr>base_filename = base_filename', max_backups = max_backups',
      backup_dir = path_join (dirname base_filename') ''backups''\<rparr>"

subsection \<open>File operations\<close>

definition open_temp_w :: "io \<Rightarrow> 'd world \<Rightarrow> exn option \<times> 'd world" where
  "open_temp_w e w =
     (case open_temp_err e of
        Some m \<Rightarrow> (Some (Exception m), w)
      | None \<Rightarrow> (None, w\<lparr>temp := Some \<lparr>content = Partial, mtime = clock e\<rparr>\<rparr>))"

definition json_dump :: "io \<Rightarrow> 'd \<Rightarrow> 'd world \<Rightarrow> exn option \<times> 'd world" where
  "json_dump e d w =
     (case dump_err e of
        Some m \<Rightarrow> (Some (Exception m), w)
      | None \<Rightarrow> (None, w\<lparr>temp := Some \<lparr>content = Json d, mtime = clock e\<rparr>\<rparr>))"

text \<open>\<open>shutil.copy2\<close> copies the data and the modification time of the source.\<close>

definition copy2_target :: "io \<Rightarrow> string \<Rightarrow> 'd world \<Rightarrow> exn option \<times> 'd world" where
  "copy2_target e name w =
     (case copy_err e of
        Some m \<Rightarrow> (Some (Exception m), w)
      | None \<Rightarrow>
          (case target w of
             None \<Rightarrow> (Some (Exception ''No such file or directory''), w)
           | Some f \<Rightarrow> (None, w\<lparr>backups := AList.update name f (backups w)\<rparr>)))"

definition listdir :: "io \<Rightarrow> 'd world \<Rightarrow> exn + string list" where
  "listdir e w =
     (case listdir_err e of
        Some m \<Rightarrow> Inl (Exception m)
      | None \<Rightarrow> Inr (map fst (backups w)))"

definition getmtime :: "io \<Rightarrow> 'd world \<Rightarrow> string \<Rightarrow> exn + nat" where
  "getmtime e w name =
     (case getmtime_err e name of
        Some m \<Rightarrow> Inl (Exception m)
      | None \<Rightarrow>
          (case map_of (backups w) name of
             None \<Rightarrow> Inl (Exception ''No such file or directory'')
           | Some f \<Rightarrow> Inr (mtime f)))"

definition remove_backup :: "io \<Rightarrow> string \<Rightarrow> 'd world \<Rightarrow> exn option \<times> 'd world" where
  "remove_backup e name w =
     (case remove_backup_err e name of
        Some m \<Rightarrow> (Some (Exception m), w)
      | None \<Rightarrow>
          if name \<in> set (map fst (backups w))
          then (None, w\<lparr>backups := AList.delete name (backups w)\<rparr>)
          else (Some (Exception ''No such file or directory''), w))"

definition remove_target :: "io \<Rightarrow> 'd world \<Rightarrow> exn option \<times> 'd world" where
  "remove_target e w =
     (case remove_target_err e of
        Some m \<Rightarrow> (Some (Exception m), w)
      | None \<Rightarrow>
          (case target w of
             None \<Rightarrow> (Some (Exception ''No such file or directory''), w)
           | Some f \<Rightarrow> (None, w\<lparr>target := None\<rparr>)))"

definition rename_temp :: "io \<Rightarrow> 'd world \<Rightarrow> exn option \<times> 'd world" where
  "rename_temp e w =
     (case rename_err e of
        Some m \<Rightarrow> (Some (Exception m), w)
      | None \<Rightarrow>
          (case temp w of
             None \<Rightarrow> (Some (Exception ''No such file or directory''), w)
           | Some f \<Rightarrow> (None, w\<lparr>target := Some f, temp := None\<rparr>)))"

definition remove_temp :: "io \<Rightarrow> 'd world \<Rightarrow> exn option \<times> 'd world" where
  "remove_temp e w =
     (case remove_temp_err e of
        Some m \<Rightarrow> (Some (Exception m), w)
      | None \<Rightarrow>
          (case temp w of
             None \<Rightarrow> (Some (Exception ''No such file or directory''), w)
           | Some f \<Rightarrow> (None, w\<lparr>temp := None\<rparr>)))"

subsection \<open>\<open>_cleanup_old_backups\<close>\<close>

text \<open>
  The key function of \<open>backups.sort\<close> is evaluated on every element, in list order,
  before anything moves; the first failing \<open>getmtime\<close> aborts the sort.
\<close>

fun sort_keys :: "io \<Rightarrow> 'd world \<Rightarrow> string list \<Rightarrow> exn + (string \<times> nat) list" where
  "sort_keys e w [] = Inr []"
| "sort_keys e w (b # bs) =
     (case getmtime e w b of
        Inl x \<Rightarrow> Inl x
      | Inr t \<Rightarrow>
          (case sort_keys e w bs of
             Inl x \<Rightarrow> Inl x
           | Inr kbs \<Rightarrow> Inr ((b, t) # kbs)))"

text \<open>
  \<open>while len(backups) > self.max_backups: os.remove(backups[0]); backups.pop(0)\<close>.
  With a negative bound the loop empties the list and then \<open>backups[0]\<close> raises
  \<open>IndexError\<close>.
\<close>

fun prune_loop :: "io \<Rightarrow> int \<Rightarrow> string list \<Rightarrow> 'd world \<Rightarrow> exn option \<times> 'd world" where
  "prune_loop e m [] w =
     (if int (length ([]::string list)) > m
      then (Some (Exception ''list index out of range''), w) else (None, w))"
| "prune_loop e m (b # bs) w =
     (if int (length (b # bs)) > m
      then (case remove_backup e b w of
              (Some x, w') \<Rightarrow> (Some x, w')
            | (None, w') \<Rightarrow> prune_loop e m bs w')
      else (None, w))"

definition cleanup_body :: "backup_manager \<Rightarrow> io \<Rightarrow> 'd world \<Rightarrow> exn option \<times> 'd world" where
  "cleanup_body bm e w =
     (case listdir e w of
        Inl x \<Rightarrow> (Some x, w)
      | Inr names \<Rightarrow>
          (case sort_keys e w (filter (\<lambda>f. endswith f ''.bak'') names) of
             Inl x \<Rightarrow> (Some x, w)
           | Inr kbs \<Rightarrow> prune_loop e (max_backups bm) (map fst (sort_key snd kbs)) w))"

definition cleanup_old_backups :: "backup_manager \<Rightarrow> io \<Rightarrow> 'd world \<Rightarrow> exn option \<times> 'd world" where
  "cleanup_old_backups bm e w =
     try_except_Exception (cleanup_body bm e w)
       (\<lambda>x w'. (None, print (''Had a small issue cleaning up old backups: '' @ exn_str x) w'))"

subsection \<open>\<open>_create_backup\<close>\<close>

definition backup_name :: "backup_manager \<Rightarrow> io \<Rightarrow> string" where
  "backup_name bm e = basename (base_filename bm) @ ''.'' @ strftime e @ ''.bak''"

definition create_backup_body :: "backup_manager \<Rightarrow> io \<Rightarrow> 'd world \<Rightarrow> exn option \<times> 'd world" where
  "create_backup_body bm e w =
     (case copy2_target e (backup_name bm e) w of
        (Some x, w') \<Rightarrow> (Some x, w')
      | (None, w') \<Rightarrow> cleanup_old_backups bm e w')"

definition create_backup :: "backup_manager \<Rightarrow> io \<Rightarrow> 'd world \<Rightarrow> exn option \<times> 'd world" where
  "create_backup bm e w =
     (if target w = None then (None, w)
      else try_except_Exception (create_backup_body bm e w)
             (\<lambda>x w'. (None, print (''Couldn't create backup right now: '' @ exn_str x) w')))"

subsection \<open>\<open>save_data\<close>\<close>

definition save_data_body :: "backup_manager \<Rightarrow> io \<Rightarrow> 'd \<Rightarrow> 'd world \<Rightarrow> exn option \<times> 'd world" where
  "save_data_body bm e d w =
     (case open_temp_w e w of
        (Some x, w1) \<Rightarrow> (Some x, w1)
      | (None, w1) \<Rightarrow>
     (case json_dump e d w1 of
        (Some x, w2) \<Rightarrow> (Some x, w2)
      | (None, w2) \<Rightarrow>
     (case (if target w2 \<noteq> None then create_backup bm e w2 else (None, w2)) of
        (Some x, w3) \<Rightarrow> (Some x, w3)
      | (None, w3) \<Rightarrow>
     (case (if target w3 \<noteq> None then remove_target e w3 else (None, w3)) of
        (Some x, w4) \<Rightarrow> (Some x, w4)
      | (None, w4) \<Rightarrow> rename_temp e w4))))"

text \<open>
  The handler of \<open>save_data\<close>: report, then remove the temporary file if it exists; a
  failure of that removal is swallowed by the bare \<open>except: pass\<close>.
\<close>

definition save_data_handler :: "io \<Rightarrow> exn \<Rightarrow> 'd world \<Rightarrow> exn option \<times> 'd world" where
  "save_data_handler e x w =
     (let w1 = print (''Oops! Had trouble saving data: '' @ exn_str x) w
      in if temp w1 \<noteq> None then (None, snd (remove_temp e w1)) else (None, w1))"

definition save_data :: "backup_manager \<Rightarrow> io \<Rightarrow> 'd \<Rightarrow> 'd world \<Rightarrow> exn option \<times> 'd world" where
  "save_data bm e d w =
     try_except_Exception (save_data_body bm e d w) (save_data_handler e)"

section \<open>The conversation document\<close>

record message_pair =
  user :: string
  character :: string
  timestamp :: string

text \<open>\<open>characters\<close> holds the two display names, the user's first.\<close>

record metadata =
  date :: string
  characters :: "string \<times> string"
  meta_scenario :: string
  pair_count :: int
  total_target :: int

record conversation_data =
  metadata :: metadata
  scenario :: string
  conversation_pairs :: "message_pair list"

text \<open>
  The settings the modelled code reads, after the file was merged into the defaults and
  with every value of the type the defaults give it. The keys \<open>character.name\<close>,
  \<open>user_persona.interests\<close> and \<open>user_persona.speaking_style\<close> are not among the
  defaults, so they may be absent; reading an absent key raises \<open>KeyError\<close>.
\<close>

record config =
  target_message_count :: int
  cfg_max_backups :: int
  persona_name :: string
  interests :: "string option"
  speaking_style :: "string option"
  character_name :: "string option"
  cfg_scenario :: string

definition default_config :: config where
  "default_config =
     \<lparr>target_message_count = 50, cfg_max_backups = 5, persona_name = ''User'',
      interests = None, speaking_style = None, character_name = None,
      cfg_scenario = ''A casual conversation between two individuals''\<rparr>"

text \<open>
  The generator object. \<open>char_ai_client\<close> and \<open>char_ai_chat\<close> say whether the attribute
  holds an object (\<open>True\<close>) or \<open>None\<close>. The attribute \<open>current_pair\<close> is never read and
  is left out.
\<close>

record generator =
  config :: config
  char_ai_client :: bool
  char_ai_chat :: bool
  conversation_data :: conversation_data
  output_file :: string
  backup_manager :: backup_manager

type_synonym state = "generator \<times> conversation_data world"

subsection \<open>Decimal text of an integer\<close>

fun str_nat :: "nat \<Rightarrow> string" where
  "str_nat n =
     (if n < 10 then [char_of (48 + n)]
      else str_nat (n div 10) @ [char_of (48 + n mod 10)])"

definition str_int :: "int \<Rightarrow> string" where
  "str_int i = (if i < 0 then ''-'' @ str_nat (nat (- i)) else str_nat (nat i))"

subsection \<open>\<open>save_conversation\<close> and \<open>add_message_pair\<close>\<close>

definition saved_progress :: "conversation_data \<Rightarrow> string" where
  "saved_progress d =
     ''Saved progress: '' @ str_int (pair_count (metadata d)) @ '' / ''
       @ str_int (total_target (metadata d))"

text \<open>The direct write of the handler: \<open>open(self.output_file, 'w')\<close>, then the dump.\<close>

definition direct_write :: "io \<Rightarrow> 'd \<Rightarrow> 'd world \<Rightarrow> exn option \<times> 'd world" where
  "direct_write e d w =
     (case open_target_err e of
        Some m \<Rightarrow> (Some (Exception m), w)
      | None \<Rightarrow>
          (case dump_target_err e of
             Some m \<Rightarrow>
               (Some (Exception m), w\<lparr>target := Some \<lparr>content = Partial, mtime = clock e\<rparr>\<rparr>)
           | None \<Rightarrow> (None, w\<lparr>target := Some \<lparr>content = Json d, mtime = clock e\<rparr>\<rparr>)))"

definition save_conversation_body ::
  "generator \<Rightarrow> io \<Rightarrow> conversation_data world \<Rightarrow> exn option \<times> conversation_data world" where
  "save_conversation_body g e w =
     (case save_data (backup_manager g) e (conversation_data g) w of
        (Some x, w') \<Rightarrow> (Some x, w')
      | (None, w') \<Rightarrow> (None, print (saved_progress (conversation_data g)) w'))"

definition save_conversation_handler ::
  "generator \<Rightarrow> io \<Rightarrow> exn \<Rightarrow> conversation_data world \<Rightarrow> exn option \<times> conversation_data world" where
  "save_conversation_handler g e x w =
     (case direct_write e (conversation_data g)
             (print (''Had a hiccup saving the conversation: '' @ exn_str x) w) of
        (Some y, w') \<Rightarrow> (Some y, w')
      | (None, w') \<Rightarrow> (None, print ''But don't worry, saved it another way!'' w'))"

definition save_conversation ::
  "generator \<Rightarrow> io \<Rightarrow> conversation_data world \<Rightarrow> exn option \<times> conversation_data world" where
  "save_conversation g e w =
     try_except_Exception (save_conversation_body g e w) (save_conversation_handler g e)"

text \<open>
  \<open>add_message_pair\<close>: \<open>now\<close> is the text of \<open>datetime.now().strftime("%Y-%m-%d %H:%M:%S")\<close>.
  The result holds the generator with the mutated document, also when the save raises.
\<close>

definition append_pair :: "string \<Rightarrow> string \<Rightarrow> string \<Rightarrow> conversation_data \<Rightarrow> conversation_data" where
  "append_pair user_text character_text now d =
     (let complete_pair = \<lparr>user = user_text, character = character_text, timestamp = now\<rparr>;
          d1 = d\<lparr>conversation_pairs := conversation_pairs d @ [complete_pair]\<rparr>
      in d1\<lparr>metadata := (metadata d1)\<lparr>pair_count := pair_count (metadata d1) + 1\<rparr>\<rparr>)"

definition add_message_pair ::
  "string \<Rightarrow> string \<Rightarrow> string \<Rightarrow> io \<Rightarrow> state \<Rightarrow> exn option \<times> state" where
  "add_message_pair user_text character_text now e s =
     (let g = (fst s)\<lparr>conversation_data :=
                 append_pair user_text character_text now (conversation_data (fst s))\<rparr>;
          (r, w) = save_conversation g e (snd s)
      in (r, (g, w)))"

section \<open>\<open>clean_response\<close>\<close>

text \<open>
  A character is a code point below 256. \<open>isspace\<close> and \<open>lower_char\<close> are
  \<open>str.isspace\<close> and \<open>str.lower\<close> on that range, \<open>strip\<close> is \<open>str.strip()\<close>.
\<close>

definition isspace :: "char \<Rightarrow> bool" where
  "isspace c =
     (let n = (of_char c :: nat)
      in (9 \<le> n \<and> n \<le> 13) \<or> (28 \<le> n \<and> n \<le> 32) \<or> n = 133 \<or> n = 160)"

definition lower_char :: "char \<Rightarrow> char" where
  "lower_char c =
     (let n = (of_char c :: nat)
      in if (65 \<le> n \<and> n \<le> 90) \<or> (192 \<le> n \<and> n \<le> 222 \<and> n \<noteq> 215)
         then char_of (n + 32) else c)"

definition lower :: "string \<Rightarrow> string" where
  "lower s = map lower_char s"

definition strip :: "string \<Rightarrow> string" where
  "strip s = rev (dropWhile isspace (rev (dropWhile isspace s)))"

definition user_prefixes :: "string list" where
  "user_prefixes =
     [''user:'', ''*user:'', ''*as user:'', ''<user>:'', ''[user]:'', ''(as user)'']"

definition character_prefixes :: "string \<Rightarrow> string list" where
  "character_prefixes name =
     (let character_name = lower name @ '':''
      in [character_name, ''*as '' @ character_name,
          ''<'' @ character_name @ ''>'', ''['' @ character_name @ '']''])"

text \<open>One round of either loop: test the prefix on the lowered text, cut and strip.\<close>

definition cut_prefix :: "string \<Rightarrow> string \<Rightarrow> string" where
  "cut_prefix response prefix =
     (if startswith (lower response) prefix
      then strip (drop (length prefix) response) else response)"

definition key_error :: "string \<Rightarrow> exn" where
  "key_error k = Exception ([CHR 0x27] @ k @ [CHR 0x27])"

definition clean_response :: "config \<Rightarrow> string \<Rightarrow> exn + string" where
  "clean_response c response =
     (let r = foldl cut_prefix (strip response) user_prefixes
      in case character_name c of
           None \<Rightarrow> Inl (key_error ''character'')
         | Some name \<Rightarrow> Inr (foldl cut_prefix r (character_prefixes name)))"

section \<open>The remote services\<close>

text \<open>
  Every call that leaves the process (a remote service, a sleep, the file system for one
  save, the clock) is answered by the environment. The answers are indexed by a counter
  of such calls, kept next to the generator and the files. A call the program awaits
  can also be cut short: when SIGINT arrives while the program waits, the event loop
  cancels the task, and the awaited call raises \<open>CancelledError\<close> inside the
  coroutine. That is the answer \<open>CancelledError\<close> of the call.
\<close>

datatype connect_outcome =
    Connected string string
  | GetClientRaised exn
  | FetchMeRaised exn
  | CreateChatRaised string exn

record env =
  connect :: "nat \<Rightarrow> connect_outcome"
  generate_content :: "nat \<Rightarrow> exn + string"
  send_message :: "nat \<Rightarrow> string \<Rightarrow> exn + string"
  sleep :: "nat \<Rightarrow> exn option"
  close_session :: "nat \<Rightarrow> exn option"
  os_io :: "nat \<Rightarrow> io"
  now_text :: "nat \<Rightarrow> string"

type_synonym run_state = "state \<times> nat"

definition print_s :: "string \<Rightarrow> run_state \<Rightarrow> run_state" where
  "print_s m s = (case s of ((g, w), t) \<Rightarrow> ((g, print m w), t))"

definition the_generator :: "run_state \<Rightarrow> generator" where
  "the_generator s = fst (fst s)"

definition the_document :: "run_state \<Rightarrow> conversation_data" where
  "the_document s = conversation_data (fst (fst s))"

subsection \<open>\<open>initialize_char_ai\<close>\<close>

definition init_failed :: "exn \<Rightarrow> run_state \<Rightarrow> (exn + bool) \<times> run_state" where
  "init_failed x s =
     (if is_Exception x
      then (Inr False, print_s (''Failed to initialize Character AI: '' @ exn_str x) s)
      else (Inl x, s))"

definition initialize_char_ai :: "env \<Rightarrow> run_state \<Rightarrow> (exn + bool) \<times> run_state" where
  "initialize_char_ai E s =
     (case s of ((g, w), t) \<Rightarrow>
        (case connect E t of
           Connected username greeting \<Rightarrow>
             (Inr True,
              print_s (''Character AI Greeting: '' @ greeting)
                (print_s (''Character AI: Logged in as @'' @ username)
                   ((g\<lparr>char_ai_client := True, char_ai_chat := True\<rparr>, w), Suc t)))
         | GetClientRaised x \<Rightarrow> init_failed x ((g, w), Suc t)
         | FetchMeRaised x \<Rightarrow> init_failed x ((g\<lparr>char_ai_client := True\<rparr>, w), Suc t)
         | CreateChatRaised username x \<Rightarrow>
             init_failed x
               (print_s (''Character AI: Logged in as @'' @ username)
                  ((g\<lparr>char_ai_client := True\<rparr>, w), Suc t))))"

subsection \<open>\<open>get_user_message\<close>\<close>

definition attribute_error :: exn where
  "attribute_error =
     Exception ([CHR 0x27] @ ''StandaloneRoleplayGenerator'' @ [CHR 0x27]
       @ '' object has no attribute '' @ [CHR 0x27] @ ''character_name'' @ [CHR 0x27])"

definition first_fallback :: "string \<Rightarrow> string \<Rightarrow> string" where
  "first_fallback name its =
     ''Hi there! I'm '' @ name @ ''. It's great to meet you. I'm really interested in ''
       @ its @ ''. What about you?''"

definition later_fallback :: string where
  "later_fallback = ''Sorry, got distracted for a second! Anyway, what were you saying?''"

text \<open>
  The text of the prompt is not modelled, only what building it reads: the attribute
  \<open>self.character_name\<close>, which no statement of the class assigns, once per recent pair,
  and the keys \<open>interests\<close> and \<open>speaking_style\<close> of the persona.
\<close>

definition build_prompt :: "config \<Rightarrow> bool \<Rightarrow> message_pair list \<Rightarrow> exn option" where
  "build_prompt c is_first_message recent_pairs =
     (if recent_pairs \<noteq> [] then Some attribute_error
      else if is_first_message \<and> interests c = None then Some (key_error ''interests'')
      else if speaking_style c = None then Some (key_error ''speaking_style'')
      else None)"

definition user_fallback :: "config \<Rightarrow> bool \<Rightarrow> exn + string" where
  "user_fallback c is_first_message =
     (if is_first_message
      then (case interests c of
              None \<Rightarrow> Inl (key_error ''interests'')
            | Some its \<Rightarrow> Inr (first_fallback (persona_name c) its))
      else Inr later_fallback)"

definition get_user_message ::
  "env \<Rightarrow> bool \<Rightarrow> message_pair list \<Rightarrow> run_state \<Rightarrow> (exn + string) \<times> run_state" where
  "get_user_message E is_first_message recent_pairs s =
     (case s of ((g, w), t) \<Rightarrow>
        (case build_prompt (config g) is_first_message recent_pairs of
           Some x \<Rightarrow> (Inl x, s)
         | None \<Rightarrow>
             (case (case generate_content E t of
                      Inl x \<Rightarrow> Inl x
                    | Inr response \<Rightarrow> clean_response (config g) response) of
                Inr response \<Rightarrow> (Inr response, ((g, w), Suc t))
              | Inl x \<Rightarrow>
                  if is_Exception x
                  then (user_fallback (config g) is_first_message,
                        print_s (''Oops! Couldn't get a user response: '' @ exn_str x)
                          ((g, w), Suc t))
                  else (Inl x, ((g, w), Suc t)))))"

subsection \<open>\<open>get_character_message\<close>\<close>

text \<open>Lines 306 to 308: connect first when the client or the chat is missing.\<close>

definition ensure_connected :: "env \<Rightarrow> run_state \<Rightarrow> exn option \<times> run_state" where
  "ensure_connected E s =
     (if \<not> char_ai_client (the_generator s) \<or> \<not> char_ai_chat (the_generator s)
      then (case initialize_char_ai E s of
              (Inl x, s1) \<Rightarrow> (Some x, s1)
            | (Inr True, s1) \<Rightarrow> (None, s1)
            | (Inr False, s1) \<Rightarrow>
                (Some (Exception ''Cannot continue without Character AI connection''), s1))
      else (None, s))"

text \<open>
  The method calls itself after a successful reconnect, with no bound of its own; the
  first argument bounds the depth of these calls, and \<open>None\<close> says the bound was reached.
\<close>

fun get_character_message ::
  "env \<Rightarrow> nat \<Rightarrow> message_pair list \<Rightarrow> run_state \<Rightarrow> ((exn + string) \<times> run_state) option" where
  "get_character_message E 0 recent_pairs s = None"
| "get_character_message E (Suc fuel) recent_pairs s =
     (case ensure_connected E s of
        (Some x, s1) \<Rightarrow> Some (Inl x, s1)
      | (None, ((g, w), t)) \<Rightarrow>
          (let last_user_message =
                 (if recent_pairs \<noteq> [] then user (last recent_pairs) else ''Hello!'')
           in case (case send_message E t last_user_message of
                      Inl x \<Rightarrow> Inl x
                    | Inr text \<Rightarrow> clean_response (config g) text) of
                Inr response \<Rightarrow> Some (Inr response, ((g, w), Suc t))
              | Inl SessionClosedError \<Rightarrow>
                  (case initialize_char_ai E
                          (print_s ''Character AI session expired, attempting to reconnect...''
                             ((g, w), Suc t)) of
                     (Inl x, s2) \<Rightarrow> Some (Inl x, s2)
                   | (Inr True, s2) \<Rightarrow> get_character_message E fuel recent_pairs s2
                   | (Inr False, s2) \<Rightarrow>
                       Some (Inl (Exception ''Failed to reconnect to Character AI''), s2))
              | Inl x \<Rightarrow>
                  if is_Exception x
                  then Some (Inl (Exception (''Character AI error: '' @ exn_str x)),
                             ((g, w), Suc t))
                  else Some (Inl x, ((g, w), Suc t))))"

section \<open>\<open>run_generation\<close>\<close>

text \<open>
  The lengths of the pauses and their text in the progress lines are not modelled.
  The dictionaries handed to \<open>get_character_message\<close> have no \<open>timestamp\<close> key; the
  record carries the empty text there.
\<close>

definition asyncio_sleep :: "env \<Rightarrow> run_state \<Rightarrow> exn option \<times> run_state" where
  "asyncio_sleep E s = (case s of (gw, t) \<Rightarrow> (sleep E t, (gw, Suc t)))"

definition add_pair :: "env \<Rightarrow> string \<Rightarrow> string \<Rightarrow> run_state \<Rightarrow> exn option \<times> run_state" where
  "add_pair E user_message character_message s =
     (case s of (gw, t) \<Rightarrow>
        (case add_message_pair user_message character_message (now_text E t) (os_io E t) gw of
           (r, gw') \<Rightarrow> (r, (gw', Suc t))))"

definition said :: "string \<Rightarrow> string \<Rightarrow> string" where
  "said name text = ''['' @ name @ '']: '' @ text"

definition first_turn :: "env \<Rightarrow> nat \<Rightarrow> run_state \<Rightarrow> (exn option \<times> run_state) option" where
  "first_turn E fuel s =
     (let c = config (the_generator s)
      in case get_user_message E True []
                (print_s (''[Thinking up '' @ persona_name c @ [CHR 0x27] @ ''s first message...]'') s) of
           (Inl x, s1) \<Rightarrow> Some (Some x, s1)
         | (Inr user_message, s1) \<Rightarrow>
             (case character_name c of
                None \<Rightarrow> Some (Some (key_error ''character''),
                               print_s (said (persona_name c) user_message) s1)
              | Some cname \<Rightarrow>
                  (case asyncio_sleep E
                          (print_s (''[Now '' @ cname @ '' is responding...]'')
                             (print_s (said (persona_name c) user_message) s1)) of
                     (Some x, s2) \<Rightarrow> Some (Some x, s2)
                   | (None, s2) \<Rightarrow>
                       (case get_character_message E fuel
                               [\<lparr>user = user_message, character = [], timestamp = []\<rparr>] s2 of
                          None \<Rightarrow> None
                        | Some (Inl x, s3) \<Rightarrow> Some (Some x, s3)
                        | Some (Inr character_message, s3) \<Rightarrow>
                            Some (add_pair E user_message character_message
                                    (print_s (said cname character_message) s3))))))"

definition loop_turn :: "env \<Rightarrow> nat \<Rightarrow> run_state \<Rightarrow> (exn option \<times> run_state) option" where
  "loop_turn E fuel s =
     (case asyncio_sleep E (print_s ''[Taking a break to think...]'' s) of
        (Some x, s1) \<Rightarrow> Some (Some x, s1)
      | (None, s1) \<Rightarrow>
          (let c = config (the_generator s1);
               pairs = conversation_pairs (the_document s1);
               recent_pairs = (if pairs \<noteq> [] then drop (length pairs - 3) pairs else [])
           in case get_user_message E False recent_pairs
                     (print_s ''[Creating the user's next message...]'' s1) of
                (Inl x, s2) \<Rightarrow> Some (Some x, s2)
              | (Inr user_message, s2) \<Rightarrow>
                  (case asyncio_sleep E
                          (print_s ''[Waiting for character to respond...]''
                             (print_s (said (persona_name c) user_message) s2)) of
                     (Some x, s3) \<Rightarrow> Some (Some x, s3)
                   | (None, s3) \<Rightarrow>
                       (case character_name c of
                          None \<Rightarrow> Some (Some (key_error ''character''), s3)
                        | Some cname \<Rightarrow>
                            (case get_character_message E fuel
                                    (recent_pairs
                                       @ [\<lparr>user = user_message, character = [], timestamp = []\<rparr>])
                                    (print_s (''[Getting '' @ cname @ [CHR 0x27] @ ''s thoughts...]'') s3) of
                               None \<Rightarrow> None
                             | Some (Inl x, s4) \<Rightarrow> Some (Some x, s4)
                             | Some (Inr character_message, s4) \<Rightarrow>
                                 Some (add_pair E user_message character_message
                                         (print_s (said cname character_message) s4)))))))"

text \<open>
  The \<open>while\<close> loop. A round ends by going round again (after a pair, or after a
  reconnect on \<open>SessionClosedError\<close>), by \<open>break\<close>, or by an exception that leaves the
  loop. The second argument bounds the number of rounds; \<open>None\<close> says it was reached.
\<close>

fun generation_loop :: "env \<Rightarrow> nat \<Rightarrow> run_state \<Rightarrow> (exn option \<times> run_state) option" where
  "generation_loop E 0 s = None"
| "generation_loop E (Suc fuel) s =
     (if pair_count (metadata (the_document s)) < target_message_count (config (the_generator s))
      then (case loop_turn E fuel s of
              None \<Rightarrow> None
            | Some (None, s1) \<Rightarrow> generation_loop E fuel s1
            | Some (Some SessionClosedError, s1) \<Rightarrow>
                (case initialize_char_ai E
                        (print_s ''Character AI session expired, reconnecting...'' s1) of
                   (Inl x, s2) \<Rightarrow> Some (Some x, s2)
                 | (Inr True, s2) \<Rightarrow> generation_loop E fuel s2
                 | (Inr False, s2) \<Rightarrow>
                     Some (Some (Exception ''Failed to reconnect to Character AI''), s2))
            | Some (Some x, s1) \<Rightarrow>
                if is_Exception x
                then Some (None, print_s (''Error during conversation: '' @ exn_str x) s1)
                else Some (Some x, s1))
      else Some (None, s))"

definition generation_body :: "env \<Rightarrow> nat \<Rightarrow> run_state \<Rightarrow> (exn option \<times> run_state) option" where
  "generation_body E fuel s =
     (case first_turn E fuel s of
        None \<Rightarrow> None
      | Some (Some x, s1) \<Rightarrow> Some (Some x, s1)
      | Some (None, s1) \<Rightarrow> generation_loop E fuel s1)"

text \<open>The two \<open>except\<close> clauses of the outer \<open>try\<close>.\<close>

definition run_handlers :: "exn option \<times> run_state \<Rightarrow> exn option \<times> run_state" where
  "run_handlers r =
     (case r of
        (None, s) \<Rightarrow> (None, s)
      | (Some KeyboardInterrupt, s) \<Rightarrow>
          (None, print_s ''No problem, saving your progress before stopping!'' s)
      | (Some x, s) \<Rightarrow>
          if is_Exception x then (None, print_s (''Ran into a snag: '' @ exn_str x) s)
          else (Some x, s))"

text \<open>
  The \<open>finally\<close> clause. An exception raised in it replaces a pending one; when it
  completes, a pending exception goes on.
\<close>

definition run_finally :: "env \<Rightarrow> exn option \<times> run_state \<Rightarrow> exn option \<times> run_state" where
  "run_finally E r =
     (case r of (pending, s) \<Rightarrow>
        (case (if char_ai_client (the_generator s)
               then (case s of (gw, t) \<Rightarrow> (close_session E t, (gw, Suc t)))
               else (None, s)) of
           (Some x, s1) \<Rightarrow> (Some x, s1)
         | (None, ((g, w), t)) \<Rightarrow>
             (case save_conversation g (os_io E t) w of
                (Some x, w1) \<Rightarrow> (Some x, ((g, w1), Suc t))
              | (None, w1) \<Rightarrow>
                  (pending,
                   print_s (''Your new dataset is saved at: '' @ output_file g)
                     (print_s (''All done! Created ''
                                 @ str_int (pair_count (metadata (conversation_data g)))
                                 @ '' conversation exchanges'')
                        ((g, w1), Suc t))))))"

definition run_generation :: "env \<Rightarrow> nat \<Rightarrow> run_state \<Rightarrow> (exn option \<times> run_state) option" where
  "run_generation E fuel s =
     (case initialize_char_ai E s of
        (Inl x, s1) \<Rightarrow> Some (Some x, s1)
      | (Inr False, s1) \<Rightarrow>
          Some (None, print_s ''Cannot continue without Character AI connection'' s1)
      | (Inr True, s1) \<Rightarrow>
          (case generation_body E fuel s1 of
             None \<Rightarrow> None
           | Some r \<Rightarrow> Some (run_finally E (run_handlers r))))"

section \<open>Start of the process\<close>

text \<open>
  What the constructor finds: the settings file, whether writing the default file,
  \<open>os.makedirs\<close> or the constructor of the text client fail, and the clock.

  The settings file is absent, or \<open>open\<close>, \<open>json.load\<close> or \<open>.items()\<close> raise on
  it (\<open>Unloadable m\<close>), or it loads as a dictionary, given by its entries in order,
  as far as the modelled code reads them: \<open>pipeline\<close> with its
  \<open>target_message_count\<close> and \<open>max_backups\<close>, \<open>user_persona\<close> with its \<open>name\<close>,
  \<open>interests\<close> and \<open>speaking_style\<close>, \<open>character\<close> with its \<open>name\<close>, the text
  \<open>scenario\<close>, an entry the modelled code does not read, or an entry that gives a
  dictionary for a category whose value is no dictionary (\<open>scenario\<close>), on which
  \<open>.update\<close> raises an \<open>AttributeError\<close> with text \<open>m\<close>. A key of an entry
  that is absent is \<open>None\<close>.
  The call \<open>self.initialize_char_ai()\<close> in the constructor is not awaited, so nothing of
  it runs there.
\<close>

datatype entry =
    PipelineEntry "int option" "int option"
  | PersonaEntry "string option" "string option" "string option"
  | CharacterEntry "string option"
  | ScenarioEntry string
  | OtherEntry
  | ClashEntry string

datatype settings_file = Missing | Unloadable string | Loaded "entry list"

record boot =
  config_path :: string
  config_file :: settings_file
  write_default_err :: "string option"
  makedirs_err :: "string option"
  gemini_client_err :: "string option"
  backup_dir_err :: "string option"
  start_date :: string
  file_stamp :: string

definition initial_document :: "config \<Rightarrow> string \<Rightarrow> conversation_data" where
  "initial_document c now =
     \<lparr>metadata = \<lparr>date = now, characters = (persona_name c, ''AI Character''),
                   meta_scenario = cfg_scenario c, pair_count = 0,
                   total_target = target_message_count c\<rparr>,
      scenario = cfg_scenario c,
      conversation_pairs = []\<rparr>"

text \<open>
  The loop of lines 124 to 128. A category among the defaults is updated key by key;
  \<open>character\<close> is not among them and is assigned whole. When an entry raises, the
  entries before it stay merged.
\<close>

fun merge_entry :: "entry \<Rightarrow> config \<Rightarrow> exn + config" where
  "merge_entry (PipelineEntry count backups') c =
     Inr (c\<lparr>target_message_count :=
              (case count of None \<Rightarrow> target_message_count c | Some n \<Rightarrow> n),
            cfg_max_backups :=
              (case backups' of None \<Rightarrow> cfg_max_backups c | Some n \<Rightarrow> n)\<rparr>)"
| "merge_entry (PersonaEntry name its style) c =
     Inr (c\<lparr>persona_name := (case name of None \<Rightarrow> persona_name c | Some n \<Rightarrow> n),
            interests := (case its of None \<Rightarrow> interests c | Some i \<Rightarrow> Some i),
            speaking_style := (case style of None \<Rightarrow> speaking_style c | Some t \<Rightarrow> Some t)\<rparr>)"
| "merge_entry (CharacterEntry name) c = Inr (c\<lparr>character_name := name\<rparr>)"
| "merge_entry (ScenarioEntry text) c = Inr (c\<lparr>cfg_scenario := text\<rparr>)"
| "merge_entry OtherEntry c = Inr c"
| "merge_entry (ClashEntry m) c = Inl (Exception m)"

fun merge_entries :: "entry list \<Rightarrow> config \<Rightarrow> exn option \<times> config" where
  "merge_entries [] c = (None, c)"
| "merge_entries (x # xs) c =
     (case merge_entry x c of
        Inl e \<Rightarrow> (Some e, c)
      | Inr c' \<Rightarrow> merge_entries xs c')"

text \<open>Lines 120 to 138; the state is the settings and the files.\<close>

definition load_config_body ::
  "boot \<Rightarrow> config \<times> conversation_data world \<Rightarrow> exn option \<times> (config \<times> conversation_data world)" where
  "load_config_body B s =
     (case s of (c, w) \<Rightarrow>
        (case config_file B of
           Unloadable m \<Rightarrow> (Some (Exception m), (c, w))
         | Loaded entries \<Rightarrow>
             (case merge_entries entries c of
                (Some x, c') \<Rightarrow> (Some x, (c', w))
              | (None, c') \<Rightarrow>
                  (None, (c', print (''Loaded your settings from '' @ config_path B) w)))
         | Missing \<Rightarrow>
             (let w1 = print (''No config file found! Creating a starter one at ''
                               @ config_path B @ ''...'') w
              in case write_default_err B of
                   Some m \<Rightarrow> (Some (Exception m), (c, w1))
                 | None \<Rightarrow>
                     (Some (SystemExit 0),
                      (c, print (''Default settings saved to '' @ config_path B
                                  @ ''. Please add your info and restart.'') w1)))))"

definition load_config ::
  "boot \<Rightarrow> conversation_data world \<Rightarrow> exn option \<times> (config \<times> conversation_data world)" where
  "load_config B w =
     try_except_Exception (load_config_body B (default_config, w))
       (\<lambda>x s. (None, (fst s,
                  print ''Going with default settings instead''
                    (print (''Had trouble with the config file: '' @ exn_str x) (snd s)))))"

definition StandaloneRoleplayGenerator ::
  "boot \<Rightarrow> conversation_data world \<Rightarrow> (exn + generator) \<times> conversation_data world" where
  "StandaloneRoleplayGenerator B w =
     (case load_config B w of
        (Some x, (c, w1)) \<Rightarrow> (Inl x, w1)
      | (None, (c, w1)) \<Rightarrow>
          (case makedirs_err B of
             Some m \<Rightarrow> (Inl (Exception m), w1)
           | None \<Rightarrow>
          (case gemini_client_err B of
             Some m \<Rightarrow> (Inl (Exception m), w1)
           | None \<Rightarrow>
          (case backup_dir_err B of
             Some m \<Rightarrow> (Inl (Exception m), w1)
           | None \<Rightarrow>
               (let out = ''datasets/conversation_'' @ file_stamp B @ ''.json'';
                    g = \<lparr>config = c, char_ai_client = False, char_ai_chat = False,
                         conversation_data = initial_document c (start_date B),
                         output_file = out,
                         backup_manager = BackupManager out (cfg_max_backups c)\<rparr>;
                    w2 = print (''Ready to generate '' @ str_int (target_message_count c)
                                 @ '' message pairs!'') w1
                in case character_name c of
                     None \<Rightarrow> (Inl (key_error ''character''), w2)
                   | Some cname \<Rightarrow>
                       (Inr g, print (''Scenario: '' @ cfg_scenario c)
                                 (print (''Character: '' @ cname) w2)))))))"

text \<open>
  \<open>main\<close> and the status the interpreter exits with: 0 when the script runs to its
  end, the argument of \<open>sys.exit\<close> for a \<open>SystemExit\<close>, 1 for an exception nobody
  caught (130 for a \<open>KeyboardInterrupt\<close>). The result also holds the generator, if one
  was built.
\<close>

definition banner :: "'d world \<Rightarrow> 'd world" where
  "banner w =
     print ''==========================================='' (print ''Roleplay Dataset Generator'' w)"

definition main ::
  "boot \<Rightarrow> env \<Rightarrow> nat \<Rightarrow> conversation_data world
     \<Rightarrow> (exn option \<times> generator option \<times> conversation_data world) option" where
  "main B E fuel w =
     (case StandaloneRoleplayGenerator B (banner w) of
        (Inl x, w1) \<Rightarrow> Some (Some x, None, w1)
      | (Inr g, w1) \<Rightarrow>
          (case run_generation E fuel
                  ((g, print ''Press Ctrl+C anytime to save and stop''
                         (print ''Starting the conversation generator...'' w1)), 0) of
             None \<Rightarrow> None
           | Some (Some KeyboardInterrupt, ((g', w2), t)) \<Rightarrow>
               Some (None, Some g', print ''Saving your progress and wrapping things up!'' w2)
           | Some (r, ((g', w2), t)) \<Rightarrow> Some (r, Some g', w2)))"




section \<open>Generators a process can hold\<close>

text \<open>
  The generator objects that can exist: the one the constructor returns, and what the
  two methods that assign to attributes of \<open>self\<close> make of it, whatever the
  environment answers and whatever is on disk. No other statement of the class assigns
  to an attribute or changes the document.
\<close>

inductive reachable :: "generator \<Rightarrow> bool" where
  constructed:
    "StandaloneRoleplayGenerator B w = (Inr g, w') \<Longrightarrow> reachable g"
| connected:
    "reachable g \<Longrightarrow> initialize_char_ai E ((g, w), t) = (r, ((g', w'), t')) \<Longrightarrow> reachable g'"
| appended:
    "reachable g \<Longrightarrow>
     add_message_pair user_text character_text now e (g, w) = (r', (g', w')) \<Longrightarrow> reachable g'"

section \<open>Where the texts of a pair come from\<close>

text \<open>
  A user text that \<open>get_user_message\<close> can hand out: the normalized reply of the text
  service to some call, or one of the two fallback utterances. A pair is complete when
  its user text is such a text and its character text is the normalized reply of the
  chat service to a message that carried this user text.
\<close>

definition user_sourced :: "env \<Rightarrow> config \<Rightarrow> string \<Rightarrow> bool" where
  "user_sourced E c u \<longleftrightarrow>
     (\<exists>t reply. generate_content E t = Inr reply \<and> clean_response c reply = Inr u) \<or>
     (\<exists>its. interests c = Some its \<and> u = first_fallback (persona_name c) its) \<or>
     u = later_fallback"

definition complete_pair :: "env \<Rightarrow> config \<Rightarrow> message_pair \<Rightarrow> bool" where
  "complete_pair E c p \<longleftrightarrow>
     user_sourced E c (user p) \<and>
     (\<exists>t reply. send_message E t (user p) = Inr reply \<and> clean_response c reply = Inr (character p))"

definition all_complete :: "env \<Rightarrow> generator \<Rightarrow> bool" where
  "all_complete E g \<longleftrightarrow>
     (\<forall>p \<in> set (conversation_pairs (conversation_data g)). complete_pair E (config g) p)"

section \<open>Environments without surprises\<close>

text \<open>
  What the awaited calls are expected to raise, if anything: an instance of a subclass
  of \<open>Exception\<close>, or \<open>CancelledError\<close> when the task is cancelled while the program
  waits. Closing the session is expected not to fail, apart from being cancelled.
\<close>

fun connect_raised :: "connect_outcome \<Rightarrow> exn option" where
  "connect_raised (Connected username greeting) = None"
| "connect_raised (GetClientRaised x) = Some x"
| "connect_raised (FetchMeRaised x) = Some x"
| "connect_raised (CreateChatRaised username x) = Some x"



text \<open>
  The task of the run is cancelled at some waiting point: one of the awaited calls
  answers with \<open>CancelledError\<close>.
\<close>

definition cancels :: "env \<Rightarrow> bool" where
  "cancels E \<longleftrightarrow>
     (\<exists>t. connect_raised (connect E t) = Some CancelledError) \<or>
     (\<exists>t. generate_content E t = Inl CancelledError) \<or>
     (\<exists>t text. send_message E t text = Inl CancelledError) \<or>
     (\<exists>t. sleep E t = Some CancelledError) \<or>
     (\<exists>t. close_session E t = Some CancelledError)"

text \<open>
  What can leave a step of a run in such an environment: an instance of a subclass of
  \<open>Exception\<close>, or the cancellation if the environment cancels at all.
\<close>

definition raisable :: "env \<Rightarrow> exn \<Rightarrow> bool" where
  "raisable E x \<longleftrightarrow> is_Exception x \<or> (x = CancelledError \<and> cancels E)"

section \<open>Sample inputs\<close>

text \<open>
  An operating system on which nothing fails, at clock \<open>t\<close> and date text \<open>stamp\<close>; a
  disk with no file of the manager on it; a generator that holds one exchange.
\<close>

definition healthy :: "nat \<Rightarrow> string \<Rightarrow> io" where
  "healthy t stamp =
     \<lparr>clock = t, strftime = stamp, open_temp_err = None, dump_err = None, copy_err = None,
      listdir_err = None, getmtime_err = (\<lambda>name. None), remove_backup_err = (\<lambda>name. None),
      remove_target_err = None, rename_err = None, remove_temp_err = None,
      open_target_err = None, dump_target_err = None\<rparr>"

definition empty_world :: "'d world" where
  "empty_world = \<lparr>target = None, temp = None, backups = [], stdout = []\<rparr>"

definition sample_config :: config where
  "sample_config =
     default_config\<lparr>interests := Some ''books'', speaking_style := Some ''plain'',
                     character_name := Some ''Bob''\<rparr>"

text \<open>
  A start with a settings file that names the character, and an environment in which
  both services answer and nothing fails.
\<close>

definition sample_boot :: boot where
  "sample_boot =
     \<lparr>config_path = ''config.json'', config_file =
        Loaded [PersonaEntry None (Some ''books'') (Some ''plain''), CharacterEntry (Some ''Bob'')],
      write_default_err = None, makedirs_err = None, gemini_client_err = None,
      backup_dir_err = None, start_date = ''2024-01-01 11:59:00'',
      file_stamp = ''20240101_115900''\<rparr>"

definition sample_env :: env where
  "sample_env =
     \<lparr>connect = (\<lambda>t. Connected ''me'' ''Hello there''),
      generate_content = (\<lambda>t. Inr ''User: Hi''),
      send_message = (\<lambda>t text. Inr ''Bob: Hello''),
      sleep = (\<lambda>t. None),
      close_session = (\<lambda>t. None),
      os_io = (\<lambda>t. healthy t ''20240101_120000''),
      now_text = (\<lambda>t. ''2024-01-01 12:00:00'')\<rparr>"

text \<open>
  Variations: the text service answers with blanks only; it fails; the chat service
  cannot be reached; the task is cancelled in every sleep.
\<close>

definition silent_user_env :: env where
  "silent_user_env = sample_env\<lparr>generate_content := (\<lambda>t. Inr ''  '')\<rparr>"

definition failing_user_env :: env where
  "failing_user_env = sample_env\<lparr>generate_content := (\<lambda>t. Inl (Exception ''timed out''))\<rparr>"


definition interrupted_env :: env where
  "interrupted_env = sample_env\<lparr>sleep := (\<lambda>t. Some CancelledError)\<rparr>"

text \<open>The document of a run after \<open>n\<close> exchanges.\<close>

primrec growing_document :: "nat \<Rightarrow> conversation_data" where
  "growing_document 0 = initial_document sample_config ''2024-01-01 11:59:00''"
| "growing_document (Suc n) =
     append_pair ''Hi'' ''Hello'' ''2024-01-01 12:00:00'' (growing_document n)"

definition sample_generator :: generator where
  "sample_generator =
     \<lparr>config = sample_config, char_ai_client = True, char_ai_chat = True,
      conversation_data = growing_document 1,
      output_file = ''datasets/conversation_20240101_115900.json'',
      backup_manager = BackupManager ''datasets/conversation_20240101_115900.json'' 5\<rparr>"

text \<open>
  The operations every save needs succeed: writing the temporary file, the backup copy,
  removing the old file and renaming. Listing and pruning the backups may still fail.
\<close>

definition writes_succeed :: "io \<Rightarrow> bool" where
  "writes_succeed e \<longleftrightarrow>
     open_temp_err e = None \<and> dump_err e = None \<and> copy_err e = None \<and>
     remove_target_err e = None \<and> rename_err e = None"

text \<open>The entries of the backup directory that \<open>_cleanup_old_backups\<close> looks at.\<close>

definition bak_entries :: "(string \<times> 'd disk_file) list \<Rightarrow> (string \<times> 'd disk_file) list" where
  "bak_entries dir = filter (\<lambda>b. endswith (fst b) ''.bak'') dir"

text \<open>A connected generator before its first exchange, and after it.\<close>

definition fresh_state :: run_state where
  "fresh_state = ((sample_generator\<lparr>conversation_data := growing_document 0\<rparr>, empty_world), 0)"

definition later_state :: run_state where
  "later_state = ((sample_generator, empty_world), 0)"

text \<open>Three saves in a row, of the documents \<open>d1\<close>, \<open>d2\<close>, \<open>d3\<close>.\<close>

definition three_saves ::
  "backup_manager \<Rightarrow> io \<Rightarrow> io \<Rightarrow> io \<Rightarrow> 'd \<Rightarrow> 'd \<Rightarrow> 'd \<Rightarrow> 'd world \<Rightarrow> 'd world" where
  "three_saves bm e1 e2 e3 d1 d2 d3 w =
     snd (save_data bm e3 d3 (snd (save_data bm e2 d2 (snd (save_data bm e1 d1 w)))))"

section \<open>Properties of the backup manager\<close>

subsection \<open>What each block can raise\<close>

lemma prune_loop_raises: "prune_loop e m bs w = (Some x, w') \<Longrightarrow> is_Exception x"
  by (induction bs arbitrary: w)
     (auto simp: remove_backup_def split: if_splits option.splits prod.splits)

lemma sort_keys_raises: "sort_keys e w bs = Inl x \<Longrightarrow> is_Exception x"
  by (induction bs) (auto simp: getmtime_def split: option.splits sum.splits)

lemma cleanup_body_raises: "cleanup_body bm e w = (Some x, w') \<Longrightarrow> is_Exception x"
  by (auto simp: cleanup_body_def listdir_def split: option.splits sum.splits
      dest: prune_loop_raises sort_keys_raises)

lemma cleanup_old_backups_returns: "fst (cleanup_old_backups bm e w) = None"
  by (cases "cleanup_body bm e w")
     (auto simp: cleanup_old_backups_def try_except_Exception_def split: option.splits
        dest: cleanup_body_raises)

lemma cleanup_old_backups_no_raise: "cleanup_old_backups bm e w \<noteq> (Some x, w')"
  using cleanup_old_backups_returns[of bm e w] by auto

lemma create_backup_body_raises:
  "create_backup_body bm e w = (Some x, w') \<Longrightarrow> is_Exception x"
  by (auto simp: create_backup_body_def copy2_target_def cleanup_old_backups_no_raise
      split: option.splits prod.splits)

lemma create_backup_returns: "fst (create_backup bm e w) = None"
  by (cases "create_backup_body bm e w")
     (auto simp: create_backup_def try_except_Exception_def split: option.splits
        dest: create_backup_body_raises)

lemma create_backup_no_raise: "create_backup bm e w \<noteq> (Some x, w')"
  using create_backup_returns[of bm e w] by auto

lemma save_data_body_raises: "save_data_body bm e d w = (Some x, w') \<Longrightarrow> is_Exception x"
  by (auto simp: create_backup_no_raise save_data_body_def open_temp_w_def json_dump_def
        remove_target_def rename_temp_def
      split: option.splits prod.splits if_splits)

lemma save_data_returns: "fst (save_data bm e d w) = None"
  by (cases "save_data_body bm e d w")
     (auto simp: save_data_def try_except_Exception_def save_data_handler_def Let_def
        split: option.splits dest: save_data_body_raises)

lemma save_data_no_raise: "save_data bm e d w \<noteq> (Some x, w')"
  using save_data_returns[of bm e d w] by auto

text \<open>
  Hence the handler of \<open>save_conversation\<close> is never entered: whatever happened inside
  \<open>save_data\<close>, the caller prints the progress line.
\<close>

lemma save_conversation_eq:
  "save_conversation g e w =
     (None, print (saved_progress (conversation_data g))
              (snd (save_data (backup_manager g) e (conversation_data g) w)))"
  by (cases "save_data (backup_manager g) e (conversation_data g) w")
     (auto simp: save_conversation_def save_conversation_body_def try_except_Exception_def
        save_data_no_raise split: option.splits)

lemma stdout_remove_temp: "stdout (snd (remove_temp e w)) = stdout w"
  by (auto simp: remove_temp_def split: option.splits)

lemma save_data_reports:
  "save_data_body bm e d w = (Some x, w1) \<Longrightarrow>
   stdout (snd (save_data bm e d w)) = stdout w1 @ [''Oops! Had trouble saving data: '' @ exn_str x]"
  by (frule save_data_body_raises)
     (auto simp add: save_data_def try_except_Exception_def save_data_handler_def Let_def
        stdout_remove_temp print_def)

lemma create_backup_reports:
  "target w \<noteq> None \<Longrightarrow> create_backup_body bm e w = (Some x, w1) \<Longrightarrow>
   stdout (snd (create_backup bm e w)) = stdout w1 @ [''Couldn't create backup right now: '' @ exn_str x]"
  by (frule create_backup_body_raises)
     (auto simp add: create_backup_def try_except_Exception_def print_def)

subsection \<open>Failures stay inside \<open>save_data\<close>\<close>

text \<open>
  Claim C10. For every document, manager, file system and pattern of failing file
  operations, \<open>save_data\<close> returns normally. A failure inside its \<open>try\<close> block
  (serialization, removal of the old file, renaming) is reported by the line
  \<open>Oops! Had trouble saving data: ...\<close>, a failure of the backup copy by the line
  \<open>Couldn't create backup right now: ...\<close> of \<open>_create_backup\<close>, which returns
  normally as well. The caller gets no value that tells the outcomes apart.
\<close>

theorem save_data_never_raises:
  "fst (save_data bm e d w) = None \<and>
   (\<forall>x w1. save_data_body bm e d w = (Some x, w1) \<longrightarrow>
      ''Oops! Had trouble saving data: '' @ exn_str x \<in> set (stdout (snd (save_data bm e d w)))) \<and>
   (\<forall>x w1. target w \<noteq> None \<and> create_backup_body bm e w = (Some x, w1) \<longrightarrow>
      fst (create_backup bm e w) = None \<and>
      ''Couldn't create backup right now: '' @ exn_str x \<in> set (stdout (snd (create_backup bm e w))))"
proof (intro conjI allI impI)
  show "fst (save_data bm e d w) = None" by (rule save_data_returns)
next
  fix x w1 assume "save_data_body bm e d w = (Some x, w1)"
  then show "''Oops! Had trouble saving data: '' @ exn_str x \<in> set (stdout (snd (save_data bm e d w)))"
    by (simp add: save_data_reports)
next
  fix x w1 assume "target w \<noteq> None \<and> create_backup_body bm e w = (Some x, w1)"
  then show "fst (create_backup bm e w) = None"
    by (simp add: create_backup_returns)
next
  fix x w1 assume "target w \<noteq> None \<and> create_backup_body bm e w = (Some x, w1)"
  then have "stdout (snd (create_backup bm e w))
               = stdout w1 @ [''Couldn't create backup right now: '' @ exn_str x]"
    using create_backup_reports by blast
  then show "''Couldn't create backup right now: '' @ exn_str x
               \<in> set (stdout (snd (create_backup bm e w)))"
    by simp
qed

theorem save_data_never_raises_witness:
  "save_data_body (BackupManager ''datasets/c.json'' 5)
      ((healthy 7 ''20240101_120000'')\<lparr>open_temp_err := Some ''Permission denied''\<rparr>)
      (1::nat) empty_world = (Some (Exception ''Permission denied''), empty_world) \<and>
   fst (save_data (BackupManager ''datasets/c.json'' 5)
      ((healthy 7 ''20240101_120000'')\<lparr>open_temp_err := Some ''Permission denied''\<rparr>)
      (1::nat) empty_world) = None \<and>
   ''Oops! Had trouble saving data: Permission denied''
     \<in> set (stdout (snd (save_data (BackupManager ''datasets/c.json'' 5)
      ((healthy 7 ''20240101_120000'')\<lparr>open_temp_err := Some ''Permission denied''\<rparr>)
      (1::nat) empty_world))) \<and>
   create_backup_body (BackupManager ''datasets/c.json'' 5)
      ((healthy 7 ''20240101_120000'')\<lparr>copy_err := Some ''No space left on device''\<rparr>)
      (empty_world\<lparr>target := Some \<lparr>content = Json (1::nat), mtime = 3\<rparr>\<rparr>)
     = (Some (Exception ''No space left on device''),
        empty_world\<lparr>target := Some \<lparr>content = Json (1::nat), mtime = 3\<rparr>\<rparr>) \<and>
   fst (create_backup (BackupManager ''datasets/c.json'' 5)
      ((healthy 7 ''20240101_120000'')\<lparr>copy_err := Some ''No space left on device''\<rparr>)
      (empty_world\<lparr>target := Some \<lparr>content = Json (1::nat), mtime = 3\<rparr>\<rparr>)) = None \<and>
   ''Couldn't create backup right now: No space left on device''
     \<in> set (stdout (snd (create_backup (BackupManager ''datasets/c.json'' 5)
      ((healthy 7 ''20240101_120000'')\<lparr>copy_err := Some ''No space left on device''\<rparr>)
      (empty_world\<lparr>target := Some \<lparr>content = Json (1::nat), mtime = 3\<rparr>\<rparr>))))"
proof -
  let ?bm = "BackupManager ''datasets/c.json'' 5"
  let ?e = "(healthy 7 ''20240101_120000'')\<lparr>open_temp_err := Some ''Permission denied''\<rparr>"
  let ?e2 = "(healthy 7 ''20240101_120000'')\<lparr>copy_err := Some ''No space left on device''\<rparr>"
  let ?w2 = "empty_world\<lparr>target := Some \<lparr>content = Json (1::nat), mtime = 3\<rparr>\<rparr>"
  have b: "save_data_body ?bm ?e (1::nat) empty_world
             = (Some (Exception ''Permission denied''), empty_world)"
    by (simp add: save_data_body_def open_temp_w_def healthy_def)
  have c: "create_backup_body ?bm ?e2 ?w2 = (Some (Exception ''No space left on device''), ?w2)"
    by (simp add: create_backup_body_def copy2_target_def healthy_def)
  have t: "target ?w2 \<noteq> None"
    by (simp add: empty_world_def)
  from save_data_never_raises[of ?bm ?e "1::nat" empty_world] b
  have 1: "fst (save_data ?bm ?e (1::nat) empty_world) = None \<and>
           ''Oops! Had trouble saving data: Permission denied''
             \<in> set (stdout (snd (save_data ?bm ?e (1::nat) empty_world)))"
    by simp
  from save_data_never_raises[of ?bm ?e2 "1::nat" ?w2] c t
  have 2: "fst (create_backup ?bm ?e2 ?w2) = None \<and>
           ''Couldn't create backup right now: No space left on device''
             \<in> set (stdout (snd (create_backup ?bm ?e2 ?w2)))"
    by simp
  from b c 1 2 show ?thesis by blast
qed

subsection \<open>Failures while saving\<close>

lemma save_data_open_fails:
  "open_temp_err e = Some m \<Longrightarrow>
   save_data bm e d w =
     (let w1 = print (''Oops! Had trouble saving data: '' @ m) w
      in if temp w \<noteq> None then (None, snd (remove_temp e w1)) else (None, w1))"
  by (simp add: save_data_def save_data_body_def open_temp_w_def try_except_Exception_def
        save_data_handler_def Let_def print_def)

lemma save_data_dump_fails:
  "open_temp_err e = None \<Longrightarrow> dump_err e = Some m \<Longrightarrow>
   save_data bm e d w =
     (None, snd (remove_temp e
        (print (''Oops! Had trouble saving data: '' @ m)
           (w\<lparr>temp := Some \<lparr>content = Partial, mtime = clock e\<rparr>\<rparr>))))"
  by (simp add: save_data_def save_data_body_def open_temp_w_def json_dump_def
        try_except_Exception_def save_data_handler_def Let_def print_def)

lemma remove_temp_keeps:
  "target (snd (remove_temp e w)) = target w"
  "backups (snd (remove_temp e w)) = backups w"
  "remove_temp_err e = None \<Longrightarrow> temp (snd (remove_temp e w)) = None"
  by (auto simp: remove_temp_def split: option.splits)

lemma save_data_serialization_failure:
  assumes "open_temp_err e \<noteq> None \<or> dump_err e \<noteq> None"
  shows "target (snd (save_data bm e d w)) = target w"
    and "backups (snd (save_data bm e d w)) = backups w"
    and "\<exists>m. stdout (snd (save_data bm e d w)) = stdout w @ [''Oops! Had trouble saving data: '' @ m]"
    and "remove_temp_err e = None \<Longrightarrow> temp (snd (save_data bm e d w)) = None"
proof -
  consider m where "open_temp_err e = Some m"
    | m where "open_temp_err e = None" "dump_err e = Some m"
    using assms by (cases "open_temp_err e") auto
  note cs = this
  show "target (snd (save_data bm e d w)) = target w"
    by (rule cs) (simp_all add: save_data_open_fails save_data_dump_fails Let_def remove_temp_keeps print_def)
  show "backups (snd (save_data bm e d w)) = backups w"
    by (rule cs) (simp_all add: save_data_open_fails save_data_dump_fails Let_def remove_temp_keeps print_def)
  show "\<exists>m. stdout (snd (save_data bm e d w)) = stdout w @ [''Oops! Had trouble saving data: '' @ m]"
    by (rule cs) (simp_all add: save_data_open_fails save_data_dump_fails Let_def stdout_remove_temp print_def)
  show "temp (snd (save_data bm e d w)) = None" if "remove_temp_err e = None"
    using that
    by (rule_tac cs) (auto simp add: save_data_open_fails save_data_dump_fails Let_def remove_temp_keeps print_def)
qed

text \<open>The backup copy fails: reported, and the save goes on.\<close>

lemma create_backup_copy_fails:
  "target w \<noteq> None \<Longrightarrow> copy_err e = Some m \<Longrightarrow>
   create_backup bm e w = (None, print (''Couldn't create backup right now: '' @ m) w)"
  by (auto simp add: create_backup_def create_backup_body_def copy2_target_def try_except_Exception_def)

lemma save_data_backup_failure:
  assumes "open_temp_err e = None" "dump_err e = None" "target w \<noteq> None" "copy_err e = Some m"
  shows "''Couldn't create backup right now: '' @ m \<in> set (stdout (snd (save_data bm e d w)))"
    and "backups (snd (save_data bm e d w)) = backups w"
    and "remove_target_err e = None \<Longrightarrow> rename_err e = None \<Longrightarrow>
         target (snd (save_data bm e d w)) = Some \<lparr>content = Json d, mtime = clock e\<rparr>
         \<and> temp (snd (save_data bm e d w)) = None"
  using assms
  by (auto simp: save_data_def save_data_body_def open_temp_w_def json_dump_def
        create_backup_copy_fails remove_target_def rename_temp_def print_def
        try_except_Exception_def save_data_handler_def Let_def remove_temp_def
      split: option.splits)


text \<open>
  Claim C4, as the code has it. A failure while the temporary file is opened or written
  leaves the target file and the backups as they were and is reported by one line; the
  temporary file is gone afterwards whenever its removal does not fail itself. A failure
  of the backup copy is reported by \<open>_create_backup\<close> and does not stop the save: when
  removing the old file and renaming succeed, the target holds the new document.
\<close>

theorem save_data_failure_handling:
  "(open_temp_err e \<noteq> None \<or> dump_err e \<noteq> None \<longrightarrow>
      target (snd (save_data bm e d w)) = target w
    \<and> backups (snd (save_data bm e d w)) = backups w
    \<and> (\<exists>m. stdout (snd (save_data bm e d w))
              = stdout w @ [''Oops! Had trouble saving data: '' @ m])
    \<and> (remove_temp_err e = None \<longrightarrow> temp (snd (save_data bm e d w)) = None))
 \<and> (open_temp_err e = None \<and> dump_err e = None \<and> target w \<noteq> None \<and> copy_err e = Some m' \<longrightarrow>
      ''Couldn't create backup right now: '' @ m' \<in> set (stdout (snd (save_data bm e d w)))
    \<and> backups (snd (save_data bm e d w)) = backups w
    \<and> (remove_target_err e = None \<and> rename_err e = None \<longrightarrow>
          target (snd (save_data bm e d w)) = Some \<lparr>content = Json d, mtime = clock e\<rparr>
        \<and> temp (snd (save_data bm e d w)) = None))"
  using save_data_serialization_failure[of e bm d w] save_data_backup_failure[of e w m' bm d]
  by blast

theorem save_data_failure_handling_witness:
  "dump_err ((healthy 7 ''20240101_120000'')\<lparr>dump_err := Some ''No space left on device''\<rparr>) \<noteq> None
 \<and> target (snd (save_data (BackupManager ''datasets/conversation_x.json'' 5)
        ((healthy 7 ''20240101_120000'')\<lparr>dump_err := Some ''No space left on device''\<rparr>)
        (growing_document 2)
        (empty_world\<lparr>target := Some \<lparr>content = Json (growing_document 1), mtime = 3\<rparr>\<rparr>)))
     = Some \<lparr>content = Json (growing_document 1), mtime = 3\<rparr>
 \<and> temp (snd (save_data (BackupManager ''datasets/conversation_x.json'' 5)
        ((healthy 7 ''20240101_120000'')\<lparr>dump_err := Some ''No space left on device''\<rparr>)
        (growing_document 2)
        (empty_world\<lparr>target := Some \<lparr>content = Json (growing_document 1), mtime = 3\<rparr>\<rparr>)))
     = None
 \<and> copy_err ((healthy 7 ''20240101_120000'')\<lparr>copy_err := Some ''No space left on device''\<rparr>)
     = Some ''No space left on device''
 \<and> target (snd (save_data (BackupManager ''datasets/conversation_x.json'' 5)
        ((healthy 7 ''20240101_120000'')\<lparr>copy_err := Some ''No space left on device''\<rparr>)
        (growing_document 2)
        (empty_world\<lparr>target := Some \<lparr>content = Json (growing_document 1), mtime = 3\<rparr>\<rparr>)))
     = Some \<lparr>content = Json (growing_document 2), mtime = 7\<rparr>"
proof -
  let ?bm = "BackupManager ''datasets/conversation_x.json'' 5"
  let ?e1 = "(healthy 7 ''20240101_120000'')\<lparr>dump_err := Some ''No space left on device''\<rparr>"
  let ?e2 = "(healthy 7 ''20240101_120000'')\<lparr>copy_err := Some ''No space left on device''\<rparr>"
  let ?w = "empty_world\<lparr>target := Some \<lparr>content = Json (growing_document 1), mtime = 3\<rparr>\<rparr>"
  have h1: "dump_err ?e1 \<noteq> None" "remove_temp_err ?e1 = None"
    by (simp_all add: healthy_def)
  have h2: "open_temp_err ?e2 = None" "dump_err ?e2 = None" "target ?w \<noteq> None"
    "copy_err ?e2 = Some ''No space left on device''"
    "remove_target_err ?e2 = None" "rename_err ?e2 = None" "clock ?e2 = 7"
    by (simp_all add: healthy_def empty_world_def)
  have w: "target ?w = Some \<lparr>content = Json (growing_document 1), mtime = 3\<rparr>"
    by (simp add: empty_world_def)
  from save_data_failure_handling[of ?e1 ?bm "growing_document 2" ?w] h1 w
  have a: "target (snd (save_data ?bm ?e1 (growing_document 2) ?w))
             = Some \<lparr>content = Json (growing_document 1), mtime = 3\<rparr>
         \<and> temp (snd (save_data ?bm ?e1 (growing_document 2) ?w)) = None"
    by simp
  from save_data_failure_handling[of ?e2 ?bm "growing_document 2" ?w "''No space left on device''"] h2
  have b: "target (snd (save_data ?bm ?e2 (growing_document 2) ?w))
             = Some \<lparr>content = Json (growing_document 2), mtime = 7\<rparr>"
    by simp
  from a b h1 h2 show ?thesis by blast
qed

text \<open>
  Claim C4 as stated fails where the backup copy fails: the target file held the document
  of one exchange before the save and holds the document of two exchanges after it.
\<close>

theorem backup_failure_replaces_target:
  "copy_err ((healthy 7 ''20240101_120000'')\<lparr>copy_err := Some ''No space left on device''\<rparr>) \<noteq> None
 \<and> target (empty_world\<lparr>target := Some \<lparr>content = Json (growing_document 1), mtime = 3\<rparr>\<rparr>)
     = Some \<lparr>content = Json (growing_document 1), mtime = 3\<rparr>
 \<and> save_data (BackupManager ''datasets/conversation_x.json'' 5)
      ((healthy 7 ''20240101_120000'')\<lparr>copy_err := Some ''No space left on device''\<rparr>)
      (growing_document 2)
      (empty_world\<lparr>target := Some \<lparr>content = Json (growing_document 1), mtime = 3\<rparr>\<rparr>)
     = (None, \<lparr>target = Some \<lparr>content = Json (growing_document 2), mtime = 7\<rparr>,
               temp = None, backups = [],
               stdout = [''Couldn't create backup right now: No space left on device'']\<rparr>)
 \<and> growing_document 2 \<noteq> growing_document 1"
  by code_simp

subsection \<open>What pruning leaves alone\<close>

lemma sort_keys_names: "sort_keys e w bs = Inr kbs \<Longrightarrow> map fst kbs = bs"
  by (induction bs arbitrary: kbs) (auto split: sum.splits)

lemma prune_loop_short: "int (length bs) \<le> m \<Longrightarrow> prune_loop e m bs w = (None, w)"
  by (cases bs) auto

lemma prune_loop_frame:
  "prune_loop e m bs w = (r, w') \<Longrightarrow> target w' = target w \<and> temp w' = temp w"
  by (induction bs arbitrary: w)
     (auto simp: remove_backup_def split: option.splits prod.splits if_splits)

lemma cleanup_old_backups_frame:
  "cleanup_old_backups bm e w = (r, w') \<Longrightarrow> target w' = target w \<and> temp w' = temp w"
  by (auto simp: cleanup_old_backups_def cleanup_body_def try_except_Exception_def print_def
      split: sum.splits option.splits prod.splits if_splits dest: prune_loop_frame)

lemma cleanup_body_short:
  assumes "int (length (filter (\<lambda>f. endswith f ''.bak'') (map fst (backups w)))) \<le> max_backups bm"
  shows "backups (snd (cleanup_body bm e w)) = backups w"
proof (cases "listdir e w")
  case (Inl x)
  then show ?thesis by (simp add: cleanup_body_def)
next
  case (Inr names)
  then have n: "names = map fst (backups w)"
    by (auto simp: listdir_def split: option.splits)
  show ?thesis
  proof (cases "sort_keys e w (filter (\<lambda>f. endswith f ''.bak'') names)")
    case (Inl x)
    with Inr show ?thesis by (simp add: cleanup_body_def)
  next
    case (Inr kbs)
    then have "length kbs = length (filter (\<lambda>f. endswith f ''.bak'') names)"
      using sort_keys_names by (metis length_map)
    with assms n have "int (length (map fst (sort_key snd kbs))) \<le> max_backups bm"
      by simp
    then have "prune_loop e (max_backups bm) (map fst (sort_key snd kbs)) w = (None, w)"
      by (rule prune_loop_short)
    with Inr \<open>listdir e w = Inr names\<close> show ?thesis
      by (simp add: cleanup_body_def)
  qed
qed

lemma cleanup_old_backups_short:
  assumes "int (length (filter (\<lambda>f. endswith f ''.bak'') (map fst (backups w)))) \<le> max_backups bm"
  shows "backups (snd (cleanup_old_backups bm e w)) = backups w"
  using cleanup_body_short[OF assms, of e]
  by (cases "cleanup_body bm e w")
     (auto simp: cleanup_old_backups_def try_except_Exception_def print_def split: option.splits)

subsection \<open>A save on which the needed operations succeed\<close>

lemma create_backup_frame:
  "create_backup bm e w = (r, w') \<Longrightarrow> target w' = target w \<and> temp w' = temp w"
  by (auto simp: create_backup_def create_backup_body_def copy2_target_def
        try_except_Exception_def print_def
      split: option.splits prod.splits if_splits dest: cleanup_old_backups_frame)

lemma save_data_first:
  assumes "open_temp_err e = None" "dump_err e = None" "rename_err e = None" "target w = None"
  shows "save_data bm e d w
           = (None, w\<lparr>target := Some \<lparr>content = Json d, mtime = clock e\<rparr>, temp := None\<rparr>)"
  using assms
  by (simp add: save_data_def save_data_body_def open_temp_w_def json_dump_def rename_temp_def
        try_except_Exception_def)

lemma save_data_succeeds:
  assumes "open_temp_err e = None" "dump_err e = None" "remove_target_err e = None"
    "rename_err e = None" "target w \<noteq> None"
  shows "target (snd (save_data bm e d w)) = Some \<lparr>content = Json d, mtime = clock e\<rparr>"
    and "temp (snd (save_data bm e d w)) = None"
    and "backups (snd (save_data bm e d w)) =
           backups (snd (create_backup bm e (w\<lparr>temp := Some \<lparr>content = Json d, mtime = clock e\<rparr>\<rparr>)))"
proof -
  let ?w2 = "w\<lparr>temp := Some \<lparr>content = Json d, mtime = clock e\<rparr>\<rparr>"
  obtain w3 where c: "create_backup bm e ?w2 = (None, w3)"
    using create_backup_returns[of bm e ?w2] by (cases "create_backup bm e ?w2") auto
  have t3: "target w3 = target w" "temp w3 = Some \<lparr>content = Json d, mtime = clock e\<rparr>"
    using create_backup_frame[OF c] by simp_all
  have body: "save_data_body bm e d w = (None, w3\<lparr>target := Some \<lparr>content = Json d, mtime = clock e\<rparr>, temp := None\<rparr>)"
    using assms c t3
    by (auto simp: save_data_body_def open_temp_w_def json_dump_def remove_target_def rename_temp_def)
  then show "target (snd (save_data bm e d w)) = Some \<lparr>content = Json d, mtime = clock e\<rparr>"
    and "temp (snd (save_data bm e d w)) = None"
    and "backups (snd (save_data bm e d w)) = backups (snd (create_backup bm e ?w2))"
    using c by (simp_all add: save_data_def try_except_Exception_def)
qed

lemma create_backup_copies:
  assumes "target w = Some f" "copy_err e = None"
  shows "create_backup bm e w =
           cleanup_old_backups bm e (w\<lparr>backups := AList.update (backup_name bm e) f (backups w)\<rparr>)"
proof -
  let ?w1 = "w\<lparr>backups := AList.update (backup_name bm e) f (backups w)\<rparr>"
  obtain w2 where c: "cleanup_old_backups bm e ?w1 = (None, w2)"
    using cleanup_old_backups_returns[of bm e ?w1] by (cases "cleanup_old_backups bm e ?w1") auto
  then show ?thesis using assms
    by (simp add: create_backup_def create_backup_body_def copy2_target_def try_except_Exception_def)
qed

lemma endswith_backup_name: "endswith (backup_name bm e) ''.bak''"
  by (simp add: endswith_def backup_name_def)

subsection \<open>Three saves with room for two backups\<close>

lemma backup_name_inj: "backup_name bm e = backup_name bm e' \<longleftrightarrow> strftime e = strftime e'"
  by (simp add: backup_name_def)

lemma save_data_backs_up:
  assumes ok: "writes_succeed e" and t: "target w = Some f"
    and short: "int (length (filter (\<lambda>n. endswith n ''.bak'')
                  (map fst (AList.update (backup_name bm e) f (backups w))))) \<le> max_backups bm"
  shows "target (snd (save_data bm e d w)) = Some \<lparr>content = Json d, mtime = clock e\<rparr>"
    and "temp (snd (save_data bm e d w)) = None"
    and "backups (snd (save_data bm e d w)) = AList.update (backup_name bm e) f (backups w)"
proof -
  let ?w2 = "w\<lparr>temp := Some \<lparr>content = Json d, mtime = clock e\<rparr>\<rparr>"
  let ?w3 = "?w2\<lparr>backups := AList.update (backup_name bm e) f (backups ?w2)\<rparr>"
  from ok have o: "open_temp_err e = None" "dump_err e = None" "copy_err e = None"
    "remove_target_err e = None" "rename_err e = None"
    by (simp_all add: writes_succeed_def)
  from t have t': "target w \<noteq> None" by simp
  have "create_backup bm e ?w2 = cleanup_old_backups bm e ?w3"
    using t o by (simp add: create_backup_copies)
  moreover have "backups (snd (cleanup_old_backups bm e ?w3)) = backups ?w3"
    using short by (intro cleanup_old_backups_short) simp
  ultimately have "backups (snd (create_backup bm e ?w2)) = AList.update (backup_name bm e) f (backups w)"
    by simp
  then show "backups (snd (save_data bm e d w)) = AList.update (backup_name bm e) f (backups w)"
    using save_data_succeeds(3)[OF o(1,2,4,5) t'] by simp
  show "target (snd (save_data bm e d w)) = Some \<lparr>content = Json d, mtime = clock e\<rparr>"
    using save_data_succeeds(1)[OF o(1,2,4,5) t'] .
  show "temp (snd (save_data bm e d w)) = None"
    using save_data_succeeds(2)[OF o(1,2,4,5) t'] .
qed

text \<open>
  Claim C7, as the code has it. Each save copies the file that the save before it wrote,
  before it replaces that file. With \<open>max_backups = 2\<close>, an empty disk at the start
  and the second and third save in different seconds, three saves leave exactly two
  backups: the documents of the first and of the second save, with the modification
  times of those saves. Nothing was evicted; the document of the third save is in the
  target file.
\<close>

theorem three_saves_keep_first_two:
  assumes "writes_succeed e1" "writes_succeed e2" "writes_succeed e3"
    and "strftime e2 \<noteq> strftime e3" and "max_backups bm = 2"
  shows "backups (three_saves bm e1 e2 e3 d1 d2 d3 empty_world) =
           [(backup_name bm e2, \<lparr>content = Json d1, mtime = clock e1\<rparr>),
            (backup_name bm e3, \<lparr>content = Json d2, mtime = clock e2\<rparr>)]
       \<and> target (three_saves bm e1 e2 e3 d1 d2 d3 empty_world)
           = Some \<lparr>content = Json d3, mtime = clock e3\<rparr>"
proof -
  let ?f1 = "\<lparr>content = Json d1, mtime = clock e1\<rparr>"
  let ?f2 = "\<lparr>content = Json d2, mtime = clock e2\<rparr>"
  define w1 where "w1 = snd (save_data bm e1 d1 empty_world)"
  define w2 where "w2 = snd (save_data bm e2 d2 w1)"
  define w3 where "w3 = snd (save_data bm e3 d3 w2)"
  have w1: "target w1 = Some ?f1" "backups w1 = []"
    using assms(1) unfolding w1_def
    by (simp_all add: save_data_first writes_succeed_def empty_world_def)
  have w2: "target w2 = Some ?f2" "backups w2 = [(backup_name bm e2, ?f1)]"
    unfolding w2_def
    using save_data_backs_up[OF assms(2) w1(1), of bm d2] assms(5) w1(2)
    by (simp_all add: endswith_backup_name)
  have ne: "backup_name bm e2 \<noteq> backup_name bm e3"
    using assms(4) by (simp add: backup_name_inj)
  have w3: "target w3 = Some \<lparr>content = Json d3, mtime = clock e3\<rparr>"
    "backups w3 = [(backup_name bm e2, ?f1), (backup_name bm e3, ?f2)]"
    unfolding w3_def
    using save_data_backs_up[OF assms(3) w2(1), of bm d3] assms(5) w2(2) ne
    by (simp_all add: endswith_backup_name)
  have "three_saves bm e1 e2 e3 d1 d2 d3 empty_world = w3"
    by (simp add: three_saves_def w1_def w2_def w3_def)
  with w3 show ?thesis by simp
qed

theorem three_saves_keep_first_two_witness:
  "writes_succeed (healthy 10 ''20240101_120001'')
 \<and> writes_succeed (healthy 20 ''20240101_120002'')
 \<and> writes_succeed (healthy 30 ''20240101_120003'')
 \<and> strftime (healthy 20 ''20240101_120002'') \<noteq> strftime (healthy 30 ''20240101_120003'')
 \<and> max_backups (BackupManager ''datasets/conversation_x.json'' 2) = 2
 \<and> backups (three_saves (BackupManager ''datasets/conversation_x.json'' 2)
      (healthy 10 ''20240101_120001'') (healthy 20 ''20240101_120002'') (healthy 30 ''20240101_120003'')
      (growing_document 1) (growing_document 2) (growing_document 3) empty_world) =
      [(''conversation_x.json.20240101_120002.bak'', \<lparr>content = Json (growing_document 1), mtime = 10\<rparr>),
       (''conversation_x.json.20240101_120003.bak'', \<lparr>content = Json (growing_document 2), mtime = 20\<rparr>)]"
proof -
  let ?bm = "BackupManager ''datasets/conversation_x.json'' 2"
  have h: "writes_succeed (healthy 10 ''20240101_120001'')"
    "writes_succeed (healthy 20 ''20240101_120002'')"
    "writes_succeed (healthy 30 ''20240101_120003'')"
    "strftime (healthy 20 ''20240101_120002'') \<noteq> strftime (healthy 30 ''20240101_120003'')"
    "max_backups ?bm = 2"
    by (simp_all add: writes_succeed_def healthy_def BackupManager_def)
  have n: "backup_name ?bm (healthy 20 ''20240101_120002'') = ''conversation_x.json.20240101_120002.bak''"
    "backup_name ?bm (healthy 30 ''20240101_120003'') = ''conversation_x.json.20240101_120003.bak''"
    by (simp_all add: backup_name_def BackupManager_def basename_def healthy_def)
  have c: "clock (healthy 10 ''20240101_120001'') = 10" "clock (healthy 20 ''20240101_120002'') = 20"
    by (simp_all add: healthy_def)
  from three_saves_keep_first_two[OF h, of "growing_document 1" "growing_document 2" "growing_document 3"]
  show ?thesis using h unfolding n c by blast
qed

text \<open>
  Claim C7 as stated fails on its own example: the two backups hold the documents of
  the first and second save, and the document of the third save is not among them.
\<close>

theorem three_saves_example_differs:
  "map (\<lambda>b. content (snd b))
     (backups (three_saves (BackupManager ''datasets/conversation_x.json'' 2)
        (healthy 10 ''20240101_120001'') (healthy 20 ''20240101_120002'') (healthy 30 ''20240101_120003'')
        (growing_document 1) (growing_document 2) (growing_document 3) empty_world))
     = [Json (growing_document 1), Json (growing_document 2)]
 \<and> growing_document 3 \<noteq> growing_document 1 \<and> growing_document 3 \<noteq> growing_document 2"
  by code_simp

subsection \<open>Pruning when nothing fails\<close>

lemma sort_keys_ok:
  assumes "\<forall>n. getmtime_err e n = None" "set bs \<subseteq> fst ` set (backups w)"
  shows "sort_keys e w bs = Inr (map (\<lambda>n. (n, mtime (the (map_of (backups w) n)))) bs)"
  using assms
proof (induction bs)
  case Nil
  then show ?case by simp
next
  case (Cons b bs)
  then have "b \<in> fst ` set (backups w)" by simp
  then obtain f where "map_of (backups w) b = Some f"
    by (metis domD dom_map_of_conv_image_fst)
  with Cons show ?case by (simp add: getmtime_def)
qed

lemma fst_set_delete: "fst ` set (AList.delete b al) = fst ` set al - {b}"
  by (induction al) (auto simp: AList.delete_eq)

lemma prune_loop_ok:
  assumes "\<forall>n. remove_backup_err e n = None" "distinct bs" "set bs \<subseteq> fst ` set (backups w)" "0 \<le> m"
  shows "prune_loop e m bs w =
           (None, w\<lparr>backups := filter (\<lambda>p. fst p \<notin> set (take (length bs - nat m) bs)) (backups w)\<rparr>)"
  using assms
proof (induction bs arbitrary: w)
  case Nil
  then show ?case by simp
next
  case (Cons b bs)
  show ?case
  proof (cases "int (length (b # bs)) > m")
    case False
    then have "length (b # bs) - nat m = 0" using Cons.prems(4) by simp
    with False show ?thesis by simp
  next
    case True
    let ?w1 = "w\<lparr>backups := AList.delete b (backups w)\<rparr>"
    have rb: "remove_backup e b w = (None, ?w1)"
      using Cons.prems by (simp add: remove_backup_def)
    have sub: "set bs \<subseteq> fst ` set (backups ?w1)"
      using Cons.prems(2,3) by (auto simp: fst_set_delete)
    have ih: "prune_loop e m bs ?w1 =
                (None, ?w1\<lparr>backups := filter (\<lambda>p. fst p \<notin> set (take (length bs - nat m) bs)) (backups ?w1)\<rparr>)"
      using Cons.IH[OF Cons.prems(1) _ sub Cons.prems(4)] Cons.prems(2) by simp
    have k: "length (b # bs) - nat m = Suc (length bs - nat m)"
      using True Cons.prems(4) by auto
    have "filter (\<lambda>p. fst p \<notin> set (take (length bs - nat m) bs)) (AList.delete b (backups w))
            = filter (\<lambda>p. fst p \<notin> set (take (length (b # bs) - nat m) (b # bs))) (backups w)"
      unfolding k by (auto simp: AList.delete_eq intro: filter_cong)
    with True rb ih show ?thesis by simp
  qed
qed

lemma sorted_take_drop:
  assumes "sorted (map f xs)" "x \<in> set (take k xs)" "y \<in> set (drop k xs)"
  shows "f x \<le> f y"
proof -
  have "sorted (map f (take k xs) @ map f (drop k xs))"
    using assms(1) by (metis append_take_drop_id map_append)
  then show ?thesis using assms(2,3) by (auto simp: sorted_append)
qed


lemma save_data_backups:
  assumes "open_temp_err e = None" "dump_err e = None" "target w \<noteq> None"
  shows "backups (snd (save_data bm e d w)) =
           backups (snd (create_backup bm e (w\<lparr>temp := Some \<lparr>content = Json d, mtime = clock e\<rparr>\<rparr>)))"
proof -
  let ?w2 = "w\<lparr>temp := Some \<lparr>content = Json d, mtime = clock e\<rparr>\<rparr>"
  obtain w3 where c: "create_backup bm e ?w2 = (None, w3)"
    using create_backup_returns[of bm e ?w2] by (cases "create_backup bm e ?w2") auto
  have t3: "target w3 = target w" "temp w3 = Some \<lparr>content = Json d, mtime = clock e\<rparr>"
    using create_backup_frame[OF c] by simp_all
  have "backups (snd (save_data_body bm e d w)) = backups w3"
    using assms c t3
    by (auto simp: save_data_body_def open_temp_w_def json_dump_def remove_target_def rename_temp_def
        split: option.splits)
  moreover have "backups (snd (save_data bm e d w)) = backups (snd (save_data_body bm e d w))"
    by (cases "save_data_body bm e d w")
       (auto simp: save_data_def try_except_Exception_def save_data_handler_def Let_def print_def
          remove_temp_keeps split: option.splits)
  ultimately show ?thesis using c by simp
qed

lemma cleanup_old_backups_ok:
  assumes nf: "listdir_err e = None" "\<forall>n. getmtime_err e n = None" "\<forall>n. remove_backup_err e n = None"
    and m: "0 \<le> max_backups bm" and d: "distinct (map fst (backups w))"
  defines "baks \<equiv> filter (\<lambda>f. endswith f ''.bak'') (map fst (backups w))"
  defines "srt \<equiv> sort_key snd (map (\<lambda>n. (n, mtime (the (map_of (backups w) n)))) baks)"
  shows "cleanup_old_backups bm e w =
           (None, w\<lparr>backups := filter (\<lambda>p. fst p \<notin> set (take (length baks - nat (max_backups bm)) (map fst srt)))
                                  (backups w)\<rparr>)"
proof -
  have sub: "set baks \<subseteq> fst ` set (backups w)" by (auto simp: baks_def)
  have sk: "sort_keys e w baks = Inr (map (\<lambda>n. (n, mtime (the (map_of (backups w) n)))) baks)"
    using nf(2) sub by (rule sort_keys_ok)
  have db: "distinct baks" using d by (simp add: baks_def)
  let ?kbs = "map (\<lambda>n. (n, mtime (the (map_of (backups w) n)))) baks"
  have dk: "distinct ?kbs" using db by (simp add: distinct_map inj_on_def)
  have ik: "inj_on fst (set ?kbs)" by (auto simp: inj_on_def)
  have ds: "distinct (map fst srt)"
    using dk ik by (simp add: srt_def distinct_map)
  have ss: "set (map fst srt) = set baks"
    by (simp add: srt_def image_image)
  have ls: "length (map fst srt) = length baks" by (simp add: srt_def)
  have "prune_loop e (max_backups bm) (map fst srt) w =
          (None, w\<lparr>backups := filter (\<lambda>p. fst p \<notin> set (take (length (map fst srt) - nat (max_backups bm)) (map fst srt)))
                                 (backups w)\<rparr>)"
    using nf(3) ds _ m by (rule prune_loop_ok) (use ss sub in auto)
  then have "cleanup_body bm e w =
          (None, w\<lparr>backups := filter (\<lambda>p. fst p \<notin> set (take (length baks - nat (max_backups bm)) (map fst srt)))
                                 (backups w)\<rparr>)"
    using nf(1) sk unfolding ls
    by (simp add: cleanup_body_def listdir_def baks_def srt_def)
  then show ?thesis
    by (simp add: cleanup_old_backups_def try_except_Exception_def)
qed


lemma length_filter_fst:
  "length (filter (\<lambda>p. Q (fst p)) al) = length (filter Q (map fst al))"
  by (induction al) auto

lemma length_filter_minus:
  assumes "distinct xs" "distinct rs" "set rs \<subseteq> set xs"
  shows "length (filter (\<lambda>n. n \<notin> set rs) xs) = length xs - length rs"
proof -
  have "length (filter (\<lambda>n. n \<notin> set rs) xs) = card (set xs - set rs)"
    using assms(1) by (metis distinct_card distinct_filter set_diff_eq set_filter)
  also have "\<dots> = card (set xs) - card (set rs)"
    using assms(3) by (simp add: card_Diff_subset)
  finally show ?thesis using assms(1,2) by (simp add: distinct_card)
qed

text \<open>
  Claim C3, as the code has it. Take a save that gets as far as the backup copy and on
  which listing the directory, reading modification times and removing backups do not
  fail, with \<open>max_backups\<close> not negative and the names in the directory distinct.
  Afterwards the directory holds at most \<open>max_backups\<close> entries whose name ends in
  \<open>.bak\<close>, namely all of them or exactly \<open>max_backups\<close>; what is left is the
  directory after the copy with some entries taken out, in the same order; every entry
  taken out ends in \<open>.bak\<close> and is no younger than any \<open>.bak\<close> entry that stayed.
\<close>

theorem pruning_keeps_newest:
  assumes s: "open_temp_err e = None" "dump_err e = None" "copy_err e = None" "target w = Some f"
    and nf: "listdir_err e = None" "\<forall>n. getmtime_err e n = None" "\<forall>n. remove_backup_err e n = None"
    and m: "0 \<le> max_backups bm" and d: "distinct (map fst (backups w))"
  shows "(let dir = AList.update (backup_name bm e) f (backups w);
              kept = backups (snd (save_data bm e d w))
          in int (length (bak_entries kept)) \<le> max_backups bm
           \<and> length (bak_entries kept) = min (length (bak_entries dir)) (nat (max_backups bm))
           \<and> (\<exists>P. kept = filter P dir)
           \<and> (\<forall>b \<in> set dir. b \<notin> set kept \<longrightarrow>
                 endswith (fst b) ''.bak'' \<and>
                 (\<forall>b' \<in> set (bak_entries kept). mtime (snd b) \<le> mtime (snd b'))))"
proof -
  define dir where "dir = AList.update (backup_name bm e) f (backups w)"
  define kept where "kept = backups (snd (save_data bm e d w))"
  define w3 where "w3 = w\<lparr>temp := Some \<lparr>content = Json d, mtime = clock e\<rparr>, backups := dir\<rparr>"
  define mt where "mt = (\<lambda>n. mtime (the (map_of dir n)))"
  define baks where "baks = filter (\<lambda>f. endswith f ''.bak'') (map fst dir)"
  define srt where "srt = sort_key snd (map (\<lambda>n. (n, mt n)) baks)"
  define k where "k = length baks - nat (max_backups bm)"
  define R where "R = take k (map fst srt)"
  have dd: "distinct (map fst dir)" using d by (simp add: dir_def distinct_update)
  have bw3: "backups w3 = dir" by (simp add: w3_def)
  have "kept = backups (snd (create_backup bm e (w\<lparr>temp := Some \<lparr>content = Json d, mtime = clock e\<rparr>\<rparr>)))"
    unfolding kept_def using s by (intro save_data_backups) simp_all
  also have "\<dots> = backups (snd (cleanup_old_backups bm e w3))"
    using s by (simp add: create_backup_copies w3_def dir_def)
  also have "\<dots> = filter (\<lambda>p. fst p \<notin> set R) dir"
    using cleanup_old_backups_ok[OF nf m, of w3] dd
    by (simp add: bw3 R_def k_def srt_def baks_def mt_def)
  finally have kept: "kept = filter (\<lambda>p. fst p \<notin> set R) dir" .
  have db: "distinct baks" using dd by (simp add: baks_def)
  let ?kbs = "map (\<lambda>n. (n, mt n)) baks"
  have ds: "distinct (map fst srt)"
    using db by (simp add: srt_def distinct_map inj_on_def)
  have ss: "set (map fst srt) = set baks" by (simp add: srt_def image_image)
  have ls: "length srt = length baks" by (simp add: srt_def)
  have Rsub: "set R \<subseteq> set baks"
    using ss set_take_subset[of k "map fst srt"] unfolding R_def by blast
  have dR: "distinct R" using ds by (simp add: R_def)
  have lR: "length R = k" by (simp add: R_def ls k_def)
  have be: "map fst (bak_entries dir) = baks"
    by (simp add: bak_entries_def baks_def filter_map comp_def)
  have "bak_entries kept = filter (\<lambda>p. fst p \<notin> set R) (bak_entries dir)"
    unfolding kept bak_entries_def by (simp add: conj_commute)
  then have "length (bak_entries kept) = length (filter (\<lambda>n. n \<notin> set R) baks)"
    using length_filter_fst[of "\<lambda>n. n \<notin> set R" "bak_entries dir"] by (simp add: be)
  also have "\<dots> = length baks - k"
    using length_filter_minus[OF db dR Rsub] lR by simp
  finally have len: "length (bak_entries kept) = min (length baks) (nat (max_backups bm))"
    by (simp add: k_def)
  have lbe: "length (bak_entries dir) = length baks" using be by (metis length_map)
  have c1: "int (length (bak_entries kept)) \<le> max_backups bm" using len m by simp
  have c2: "length (bak_entries kept) = min (length (bak_entries dir)) (nat (max_backups bm))"
    using len lbe by simp
  have c3: "\<exists>P. kept = filter P dir" using kept by blast
  have srt_sorted: "sorted (map snd srt)" by (simp add: srt_def)
  have srt_el: "\<And>p. p \<in> set srt \<Longrightarrow> snd p = mt (fst p) \<and> fst p \<in> set baks"
    by (auto simp: srt_def)
  have mt_eq: "\<And>b. b \<in> set dir \<Longrightarrow> mt (fst b) = mtime (snd b)"
    using dd by (auto simp: mt_def)
  have c4: "\<forall>b \<in> set dir. b \<notin> set kept \<longrightarrow>
              endswith (fst b) ''.bak'' \<and>
              (\<forall>b' \<in> set (bak_entries kept). mtime (snd b) \<le> mtime (snd b'))"
  proof (intro ballI impI conjI)
    fix b assume b: "b \<in> set dir" "b \<notin> set kept"
    then have bR: "fst b \<in> set R" by (simp add: kept)
    then show "endswith (fst b) ''.bak''" using Rsub by (auto simp: baks_def)
    from bR obtain p where p: "p \<in> set (take k srt)" "fst p = fst b"
      by (auto simp: R_def take_map)
    fix b' assume b': "b' \<in> set (bak_entries kept)"
    then have b'd: "b' \<in> set dir" "fst b' \<notin> set R" "fst b' \<in> set baks"
      by (auto simp: bak_entries_def kept baks_def)
    then have "fst b' \<in> set (map fst srt)" using ss by simp
    then have "fst b' \<in> set (take k (map fst srt)) \<union> set (drop k (map fst srt))"
      by (metis append_take_drop_id set_append)
    with b'd(2) have "fst b' \<in> set (drop k (map fst srt))" by (simp add: R_def)
    then obtain q where q: "q \<in> set (drop k srt)" "fst q = fst b'"
      by (auto simp: drop_map)
    have "snd p \<le> snd q" using srt_sorted p(1) q(1) by (rule sorted_take_drop)
    moreover have "snd p = mt (fst b)" using srt_el[of p] p by (metis in_set_takeD)
    moreover have "snd q = mt (fst b')" using srt_el[of q] q by (metis in_set_dropD)
    ultimately show "mtime (snd b) \<le> mtime (snd b')"
      using mt_eq[OF b(1)] mt_eq[OF b'd(1)] by simp
  qed
  from c1 c2 c3 c4 show ?thesis
    unfolding Let_def dir_def[symmetric] kept_def[symmetric] by blast
qed


theorem pruning_keeps_newest_witness:
  "open_temp_err (healthy 7 ''20240101_120000'') = None
 \<and> dump_err (healthy 7 ''20240101_120000'') = None
 \<and> copy_err (healthy 7 ''20240101_120000'') = None
 \<and> listdir_err (healthy 7 ''20240101_120000'') = None
 \<and> (\<forall>n. getmtime_err (healthy 7 ''20240101_120000'') n = None)
 \<and> (\<forall>n. remove_backup_err (healthy 7 ''20240101_120000'') n = None)
 \<and> 0 \<le> max_backups (BackupManager ''datasets/conversation_x.json'' 2)
 \<and> int (length (bak_entries (backups (snd (save_data (BackupManager ''datasets/conversation_x.json'' 2)
        (healthy 7 ''20240101_120000'') (growing_document 3)
        \<lparr>target = Some \<lparr>content = Json (growing_document 2), mtime = 3\<rparr>, temp = None,
         backups = [(''conversation_x.json.20240101_115959.bak'',
                       \<lparr>content = Json (growing_document 1), mtime = 2\<rparr>),
                    (''notes.txt'', \<lparr>content = Partial, mtime = 0\<rparr>),
                    (''conversation_x.json.20240101_115958.bak'',
                       \<lparr>content = Json (growing_document 0), mtime = 1\<rparr>)],
         stdout = []\<rparr>)))))
     \<le> max_backups (BackupManager ''datasets/conversation_x.json'' 2)
 \<and> map fst (backups (snd (save_data (BackupManager ''datasets/conversation_x.json'' 2)
        (healthy 7 ''20240101_120000'') (growing_document 3)
        \<lparr>target = Some \<lparr>content = Json (growing_document 2), mtime = 3\<rparr>, temp = None,
         backups = [(''conversation_x.json.20240101_115959.bak'',
                       \<lparr>content = Json (growing_document 1), mtime = 2\<rparr>),
                    (''notes.txt'', \<lparr>content = Partial, mtime = 0\<rparr>),
                    (''conversation_x.json.20240101_115958.bak'',
                       \<lparr>content = Json (growing_document 0), mtime = 1\<rparr>)],
         stdout = []\<rparr>)))
     = [''conversation_x.json.20240101_115959.bak'', ''notes.txt'',
        ''conversation_x.json.20240101_120000.bak'']"
proof -
  let ?bm = "BackupManager ''datasets/conversation_x.json'' 2"
  let ?e = "healthy 7 ''20240101_120000''"
  let ?f = "\<lparr>content = Json (growing_document 2), mtime = 3\<rparr>"
  let ?w = "\<lparr>target = Some ?f, temp = None,
         backups = [(''conversation_x.json.20240101_115959.bak'',
                       \<lparr>content = Json (growing_document 1), mtime = 2\<rparr>),
                    (''notes.txt'', \<lparr>content = Partial, mtime = 0\<rparr>),
                    (''conversation_x.json.20240101_115958.bak'',
                       \<lparr>content = Json (growing_document 0), mtime = 1\<rparr>)],
         stdout = []\<rparr>"
  have h: "open_temp_err ?e = None" "dump_err ?e = None" "copy_err ?e = None"
    "target ?w = Some ?f"
    "listdir_err ?e = None" "\<forall>n. getmtime_err ?e n = None" "\<forall>n. remove_backup_err ?e n = None"
    "0 \<le> max_backups ?bm" "distinct (map fst (backups ?w))"
    by (simp_all add: healthy_def BackupManager_def)
  have n: "backup_name ?bm ?e = ''conversation_x.json.20240101_120000.bak''"
    by (simp add: backup_name_def BackupManager_def basename_def healthy_def)
  have r: "map fst (backups (snd (save_data ?bm ?e (growing_document 3) ?w)))
     = [''conversation_x.json.20240101_115959.bak'', ''notes.txt'',
        ''conversation_x.json.20240101_120000.bak'']"
    by code_simp
  from pruning_keeps_newest[OF h, of "growing_document 3"]
  have b: "int (length (bak_entries (backups (snd (save_data ?bm ?e (growing_document 3) ?w)))))
             \<le> max_backups ?bm"
    by (simp add: Let_def)
  from h(1-3,5-8) b r show ?thesis by blast
qed

text \<open>
  Claim C3 as stated fails when a removal fails: pruning is given up at the first error
  (the \<open>except\<close> clause of \<open>_cleanup_old_backups\<close>), and the save completes with three
  backups although \<open>max_backups\<close> is 2.
\<close>

theorem failed_removal_exceeds_bound:
  "max_backups (BackupManager ''datasets/conversation_x.json'' 2) = 2
 \<and> map fst (backups (snd (save_data (BackupManager ''datasets/conversation_x.json'' 2)
        ((healthy 7 ''20240101_120000'')
           \<lparr>remove_backup_err := [''conversation_x.json.20240101_115958.bak'' \<mapsto> ''Permission denied'']\<rparr>)
        (growing_document 3)
        \<lparr>target = Some \<lparr>content = Json (growing_document 2), mtime = 3\<rparr>, temp = None,
         backups = [(''conversation_x.json.20240101_115958.bak'',
                       \<lparr>content = Json (growing_document 0), mtime = 1\<rparr>),
                    (''conversation_x.json.20240101_115959.bak'',
                       \<lparr>content = Json (growing_document 1), mtime = 2\<rparr>)],
         stdout = []\<rparr>)))
     = [''conversation_x.json.20240101_115958.bak'', ''conversation_x.json.20240101_115959.bak'',
        ''conversation_x.json.20240101_120000.bak'']
 \<and> stdout (snd (save_data (BackupManager ''datasets/conversation_x.json'' 2)
        ((healthy 7 ''20240101_120000'')
           \<lparr>remove_backup_err := [''conversation_x.json.20240101_115958.bak'' \<mapsto> ''Permission denied'']\<rparr>)
        (growing_document 3)
        \<lparr>target = Some \<lparr>content = Json (growing_document 2), mtime = 3\<rparr>, temp = None,
         backups = [(''conversation_x.json.20240101_115958.bak'',
                       \<lparr>content = Json (growing_document 0), mtime = 1\<rparr>),
                    (''conversation_x.json.20240101_115959.bak'',
                       \<lparr>content = Json (growing_document 1), mtime = 2\<rparr>)],
         stdout = []\<rparr>))
     = [''Had a small issue cleaning up old backups: Permission denied'']"
  by code_simp

section \<open>Properties of the ledger\<close>

text \<open>
  Claim C1, evaluated where the claim and the code part. The generator holds one
  exchange; nothing of it is on disk yet; opening the temporary file fails (a directory
  sits at that path), while a direct write to the output path would have worked.
  \<open>save_conversation\<close> then returns with the output path still empty: the failure was
  reported and swallowed inside \<open>save_data\<close>, the handler with the direct write is not
  entered, and the progress line is printed as after a successful save.
\<close>

theorem save_conversation_swallows_failure:
  "save_conversation sample_generator
     ((healthy 7 ''20240101_120000'')\<lparr>open_temp_err := Some ''Is a directory''\<rparr>) empty_world =
   (None, \<lparr>target = None, temp = None, backups = [],
           stdout = [''Oops! Had trouble saving data: Is a directory'',
                     ''Saved progress: 1 / 50'']\<rparr>)"
  by code_simp

text \<open>
  Claim C5. \<open>add_message_pair\<close> appends exactly one pair, made of the two texts and the
  current date text, behind the pairs already there, adds one to \<open>pair_count\<close>, changes
  nothing else of the generator, and returns only after \<open>save_conversation\<close> ran on the
  new document, which passed that document to \<open>save_data\<close>.
\<close>

theorem add_message_pair_appends:
  "(let r = add_message_pair user_text character_text now e (g, w);
        g' = fst (snd r); w' = snd (snd r);
        d = conversation_data g; d' = conversation_data g'
    in conversation_pairs d' =
         conversation_pairs d @ [\<lparr>user = user_text, character = character_text, timestamp = now\<rparr>]
     \<and> pair_count (metadata d') = pair_count (metadata d) + 1
     \<and> g' = g\<lparr>conversation_data := d'\<rparr>
     \<and> fst r = None
     \<and> w' = snd (save_conversation g' e w)
     \<and> w' = print (saved_progress d') (snd (save_data (backup_manager g) e d' w)))"
  by (simp add: add_message_pair_def append_pair_def Let_def save_conversation_eq split: prod.splits)

section \<open>Properties of the normalization\<close>






lemma foldl_cut_none:
  "\<forall>q \<in> set qs. \<not> startswith (lower s) q \<Longrightarrow> foldl cut_prefix s qs = s"
  by (induction qs) (simp_all add: cut_prefix_def)

lemma foldl_cut_first:
  assumes "\<forall>q \<in> set pre. \<not> startswith (lower s) q" "startswith (lower s) p"
    "\<forall>q \<in> set post. \<not> startswith (lower (strip (drop (length p) s))) q"
  shows "foldl cut_prefix s (pre @ p # post) = strip (drop (length p) s)"
  using assms by (simp add: foldl_cut_none cut_prefix_def)













section \<open>Properties of a run\<close>

subsection \<open>The counter and the list stay together\<close>

lemma constructor_document:
  "StandaloneRoleplayGenerator B w = (Inr g, w') \<Longrightarrow>
   \<exists>c. conversation_data g = initial_document c (start_date B)"
  by (auto simp: StandaloneRoleplayGenerator_def Let_def split: prod.splits option.splits)

lemma initialize_document:
  "initialize_char_ai E ((g, w), t) = (r, ((g', w'), t')) \<Longrightarrow>
   conversation_data g' = conversation_data g \<and> config g' = config g"
  by (auto simp: initialize_char_ai_def init_failed_def print_s_def
      split: connect_outcome.splits if_splits)

lemma add_message_pair_document:
  "add_message_pair u c now e (g, w) = (r, (g', w')) \<Longrightarrow>
   conversation_data g' = append_pair u c now (conversation_data g) \<and> config g' = config g"
  by (auto simp: add_message_pair_def Let_def split: prod.splits)

text \<open>
  Claim C9. In every generator a process can hold, \<open>pair_count\<close> equals the number of
  entries of \<open>conversation_pairs\<close>: the constructor sets 0 and the empty list,
  connecting leaves the document alone, and \<open>add_message_pair\<close> appends one pair and
  adds one.
\<close>

theorem pair_count_is_length:
  "reachable g \<Longrightarrow>
   pair_count (metadata (conversation_data g)) = int (length (conversation_pairs (conversation_data g)))"
proof (induction rule: reachable.induct)
  case (constructed B w g w')
  then obtain c where "conversation_data g = initial_document c (start_date B)"
    using constructor_document by blast
  then show ?case by (simp add: initial_document_def)
next
  case (connected g E w t r g' w' t')
  then show ?case using initialize_document by metis
next
  case (appended g user_text character_text now e w r' g' w')
  from appended.hyps(2)
  have "conversation_data g' = append_pair user_text character_text now (conversation_data g)"
    using add_message_pair_document by blast
  with appended.IH show ?case by (simp add: append_pair_def Let_def)
qed

theorem pair_count_is_length_witness:
  "reachable (fst (snd (add_message_pair ''Hi'' ''Hello'' ''2024-01-01 12:00:00''
       (healthy 7 ''20240101_120000'')
       (sample_generator\<lparr>char_ai_client := False, char_ai_chat := False,
                          conversation_data := growing_document 0\<rparr>, empty_world))))
 \<and> pair_count (metadata (conversation_data (fst (snd (add_message_pair ''Hi'' ''Hello''
       ''2024-01-01 12:00:00'' (healthy 7 ''20240101_120000'')
       (sample_generator\<lparr>char_ai_client := False, char_ai_chat := False,
                          conversation_data := growing_document 0\<rparr>, empty_world))))))
   = int (length (conversation_pairs (conversation_data (fst (snd (add_message_pair ''Hi'' ''Hello''
       ''2024-01-01 12:00:00'' (healthy 7 ''20240101_120000'')
       (sample_generator\<lparr>char_ai_client := False, char_ai_chat := False,
                          conversation_data := growing_document 0\<rparr>, empty_world)))))))"
proof -
  let ?g0 = "sample_generator\<lparr>char_ai_client := False, char_ai_chat := False,
                          conversation_data := growing_document 0\<rparr>"
  let ?r = "add_message_pair ''Hi'' ''Hello'' ''2024-01-01 12:00:00''
       (healthy 7 ''20240101_120000'') (?g0, empty_world)"
  have "fst (StandaloneRoleplayGenerator sample_boot empty_world) = Inr ?g0"
    by code_simp
  then have "StandaloneRoleplayGenerator sample_boot empty_world
               = (Inr ?g0, snd (StandaloneRoleplayGenerator sample_boot empty_world))"
    by (metis prod.collapse)
  then have r0: "reachable ?g0" by (rule reachable.constructed)
  have "?r = (fst ?r, (fst (snd ?r), snd (snd ?r)))" by simp
  with r0 have r1: "reachable (fst (snd ?r))" by (rule reachable.appended)
  from pair_count_is_length[OF r1] r1 show ?thesis by blast
qed

subsection \<open>What the steps of a turn do to the document\<close>

lemma the_document_print_s [simp]: "the_document (print_s m s) = the_document s"
  by (cases s) (auto simp: the_document_def print_s_def)

lemma the_generator_print_s [simp]: "the_generator (print_s m s) = the_generator s"
  by (cases s) (auto simp: the_generator_def print_s_def)

lemma initialize_keeps_document:
  "initialize_char_ai E s = (r, s') \<Longrightarrow>
   the_document s' = the_document s \<and> config (the_generator s') = config (the_generator s)"
  by (cases s)
     (auto simp: initialize_char_ai_def init_failed_def print_s_def the_document_def
        the_generator_def split: connect_outcome.splits if_splits)

lemma get_user_message_keeps:
  "get_user_message E first recent s = (r, s') \<Longrightarrow>
   the_document s' = the_document s \<and> the_generator s' = the_generator s"
  by (cases s)
     (auto simp: get_user_message_def print_s_def the_document_def the_generator_def
        split: option.splits sum.splits if_splits)

lemma asyncio_sleep_keeps:
  "asyncio_sleep E s = (r, s') \<Longrightarrow>
   the_document s' = the_document s \<and> the_generator s' = the_generator s"
  by (cases s) (auto simp: asyncio_sleep_def the_document_def the_generator_def)

lemma ensure_connected_keeps:
  "ensure_connected E s = (r, s') \<Longrightarrow>
   the_document s' = the_document s \<and> config (the_generator s') = config (the_generator s)"
  by (auto simp: ensure_connected_def split: if_splits prod.splits sum.splits bool.splits
      dest: initialize_keeps_document)

lemma get_character_message_keeps:
  "get_character_message E fuel recent s = Some (r, s') \<Longrightarrow>
   the_document s' = the_document s \<and> config (the_generator s') = config (the_generator s)"
proof (induction fuel arbitrary: s)
  case 0
  then show ?case by simp
next
  case (Suc fuel)
  obtain r1 g w t where ec: "ensure_connected E s = (r1, ((g, w), t))"
    by (metis prod.collapse)
  note k1 = ensure_connected_keeps[OF ec]
  show ?case
  proof (cases r1)
    case (Some x)
    with Suc.prems ec k1 show ?thesis by auto
  next
    case None
    let ?last = "if recent \<noteq> [] then user (last recent) else ''Hello!''"
    let ?ans = "case send_message E t ?last of Inl x \<Rightarrow> Inl x
                | Inr text \<Rightarrow> clean_response (config g) text"
    show ?thesis
    proof (cases ?ans)
      case (Inr response)
      with Suc.prems ec None k1 show ?thesis
        by (auto simp: Let_def the_document_def the_generator_def)
    next
      case (Inl x)
      show ?thesis
      proof (cases "x = SessionClosedError")
        case False
        with Inl Suc.prems ec None k1 show ?thesis
          by (cases x) (auto simp: Let_def the_document_def the_generator_def split: if_splits)
      next
        case True
        let ?s1 = "print_s ''Character AI session expired, attempting to reconnect...'' ((g, w), Suc t)"
        obtain r2 s2 where i: "initialize_char_ai E ?s1 = (r2, s2)" by (metis prod.collapse)
        note k2 = initialize_keeps_document[OF i]
        have k12: "the_document s2 = the_document s"
          "config (the_generator s2) = config (the_generator s)"
          using k1 k2 by (simp_all add: the_document_def the_generator_def print_s_def)
        from Suc.prems ec None Inl True i
        have "(case r2 of Inl x \<Rightarrow> Some (Inl x, s2)
                | Inr True \<Rightarrow> get_character_message E fuel recent s2
                | Inr False \<Rightarrow> Some (Inl (Exception ''Failed to reconnect to Character AI''), s2))
              = Some (r, s')"
          by (simp add: Let_def)
        then show ?thesis using k12 Suc.IH[of s2]
          by (auto split: sum.splits bool.splits)
      qed
    qed
  qed
qed

lemma add_pair_appends:
  "add_pair E u c s = (r, s') \<Longrightarrow>
   r = None \<and> config (the_generator s') = config (the_generator s) \<and>
   the_document s' = append_pair u c (now_text E (snd s)) (the_document s)"
  by (cases s)
     (auto simp: add_pair_def add_message_pair_def Let_def save_conversation_eq
        the_document_def the_generator_def split: prod.splits)

lemma fallback_nonempty: "first_fallback name its \<noteq> []" "later_fallback \<noteq> []"
  by (simp_all add: first_fallback_def later_fallback_def)

lemma get_user_message_fallback:
  assumes "build_prompt (config g) first recent = None"
    "generate_content E t = Inl x" "is_Exception x"
  shows "fst (get_user_message E first recent ((g, w), t)) =
           Inr (if first then first_fallback (persona_name (config g)) (the (interests (config g)))
                else later_fallback)"
  using assms
  by (auto simp: get_user_message_def build_prompt_def user_fallback_def
      split: if_splits option.splits)

lemma first_turn_raises:
  assumes "first_turn E fuel s = Some (Some x, s')"
  shows "the_document s' = the_document s"
  using assms
  by (auto simp: first_turn_def Let_def
      split: prod.splits sum.splits option.splits
      dest!: get_user_message_keeps asyncio_sleep_keeps get_character_message_keeps add_pair_appends)

lemma first_turn_completes:
  assumes "first_turn E fuel s = Some (None, s')"
  shows "\<exists>u c s1 s2 s3 s4.
           get_user_message E True []
             (print_s (''[Thinking up '' @ persona_name (config (the_generator s)) @ [CHR 0x27]
                        @ ''s first message...]'') s) = (Inr u, s1)
         \<and> get_character_message E fuel [\<lparr>user = u, character = [], timestamp = []\<rparr>] s2
             = Some (Inr c, s3)
         \<and> add_pair E u c s4 = (None, s')
         \<and> the_document s4 = the_document s
         \<and> the_document s' = append_pair u c (now_text E (snd s4)) (the_document s)"
proof -
  let ?c = "config (the_generator s)"
  let ?s0 = "print_s (''[Thinking up '' @ persona_name ?c @ [CHR 0x27] @ ''s first message...]'') s"
  obtain ru s1 where gu: "get_user_message E True [] ?s0 = (ru, s1)" by (metis prod.collapse)
  from assms gu obtain u where u: "ru = Inr u"
    by (cases ru) (auto simp: first_turn_def Let_def)
  from assms gu u obtain cname where cn: "character_name ?c = Some cname"
    by (cases "character_name ?c") (auto simp: first_turn_def Let_def)
  let ?s1' = "print_s (''[Now '' @ cname @ '' is responding...]'') (print_s (said (persona_name ?c) u) s1)"
  obtain rs s2 where sl: "asyncio_sleep E ?s1' = (rs, s2)" by (metis prod.collapse)
  from assms gu u cn sl have rs: "rs = None"
    by (cases rs) (auto simp: first_turn_def Let_def)
  from assms gu u cn sl rs obtain c s3 where
    gc: "get_character_message E fuel [\<lparr>user = u, character = [], timestamp = []\<rparr>] s2 = Some (Inr c, s3)"
    and ap: "add_pair E u c (print_s (said cname c) s3) = (None, s')"
    by (auto simp: first_turn_def Let_def split: option.splits sum.splits prod.splits)
  have d1: "the_document s1 = the_document s" using get_user_message_keeps[OF gu] by simp
  have d2: "the_document s2 = the_document s" using asyncio_sleep_keeps[OF sl] d1 by simp
  have d3: "the_document s3 = the_document s" using get_character_message_keeps[OF gc] d2 by simp
  let ?s4 = "print_s (said cname c) s3"
  have d4: "the_document ?s4 = the_document s" using d3 by simp
  have "the_document s' = append_pair u c (now_text E (snd ?s4)) (the_document s)"
    using add_pair_appends[OF ap] d4 by simp
  with gu u gc ap d4 show ?thesis by blast
qed


lemma loop_turn_raises:
  assumes "loop_turn E fuel s = Some (Some x, s')"
  shows "the_document s' = the_document s"
  using assms
  by (auto simp: loop_turn_def Let_def
      split: prod.splits sum.splits option.splits if_splits
      dest!: get_user_message_keeps asyncio_sleep_keeps get_character_message_keeps add_pair_appends)

lemma loop_turn_completes:
  assumes "loop_turn E fuel s = Some (None, s')"
  shows "\<exists>u c recent s0 s1 s2 s3 s4.
           recent = (if conversation_pairs (the_document s) \<noteq> []
                     then drop (length (conversation_pairs (the_document s)) - 3)
                            (conversation_pairs (the_document s))
                     else [])
         \<and> get_user_message E False recent s0 = (Inr u, s1)
         \<and> get_character_message E fuel
              (recent @ [\<lparr>user = u, character = [], timestamp = []\<rparr>]) s2 = Some (Inr c, s3)
         \<and> add_pair E u c s4 = (None, s')
         \<and> the_document s4 = the_document s
         \<and> the_document s' = append_pair u c (now_text E (snd s4)) (the_document s)"
proof -
  obtain r0 sa where sl0: "asyncio_sleep E (print_s ''[Taking a break to think...]'' s) = (r0, sa)"
    by (metis prod.collapse)
  from assms sl0 have r0: "r0 = None" by (cases r0) (auto simp: loop_turn_def)
  have da: "the_document sa = the_document s" using asyncio_sleep_keeps[OF sl0] by simp
  let ?c = "config (the_generator sa)"
  let ?pairs = "conversation_pairs (the_document sa)"
  let ?recent = "if ?pairs \<noteq> [] then drop (length ?pairs - 3) ?pairs else []"
  let ?s0 = "print_s ''[Creating the user's next message...]'' sa"
  obtain ru s1 where gu: "get_user_message E False ?recent ?s0 = (ru, s1)" by (metis prod.collapse)
  from assms sl0 r0 gu obtain u where u: "ru = Inr u"
    by (cases ru) (auto simp: loop_turn_def Let_def)
  let ?s1' = "print_s ''[Waiting for character to respond...]'' (print_s (said (persona_name ?c) u) s1)"
  obtain rs s2 where sl: "asyncio_sleep E ?s1' = (rs, s2)" by (metis prod.collapse)
  from assms sl0 r0 gu u sl have rs: "rs = None"
    by (cases rs) (auto simp: loop_turn_def Let_def)
  from assms sl0 r0 gu u sl rs obtain cname where cn: "character_name ?c = Some cname"
    by (cases "character_name ?c") (auto simp: loop_turn_def Let_def)
  let ?s2' = "print_s (''[Getting '' @ cname @ [CHR 0x27] @ ''s thoughts...]'') s2"
  from assms sl0 r0 gu u sl rs cn obtain c s3 where
    gc: "get_character_message E fuel (?recent @ [\<lparr>user = u, character = [], timestamp = []\<rparr>]) ?s2'
           = Some (Inr c, s3)"
    and ap: "add_pair E u c (print_s (said cname c) s3) = (None, s')"
    by (auto simp: loop_turn_def Let_def split: option.splits sum.splits prod.splits)
  have d1: "the_document s1 = the_document s" using get_user_message_keeps[OF gu] da by simp
  have d2: "the_document s2 = the_document s" using asyncio_sleep_keeps[OF sl] d1 by simp
  have d3: "the_document s3 = the_document s" using get_character_message_keeps[OF gc] d2 by simp
  let ?s4 = "print_s (said cname c) s3"
  have d4: "the_document ?s4 = the_document s" using d3 by simp
  have d5: "the_document s' = append_pair u c (now_text E (snd ?s4)) (the_document s)"
    using add_pair_appends[OF ap] d4 by simp
  from gu u gc ap d4 d5 show ?thesis unfolding da by blast
qed

subsection \<open>Only complete pairs are appended\<close>

lemma all_complete_same:
  "conversation_data g' = conversation_data g \<Longrightarrow> config g' = config g \<Longrightarrow>
   all_complete E g' = all_complete E g"
  by (simp add: all_complete_def)

lemma all_complete_append:
  assumes "all_complete E g" "complete_pair E (config g) \<lparr>user = u, character = x, timestamp = now\<rparr>"
    "conversation_data g' = append_pair u x now (conversation_data g)" "config g' = config g"
  shows "all_complete E g'"
  using assms by (auto simp: all_complete_def append_pair_def Let_def)

lemma get_user_message_sourced:
  "get_user_message E first recent s = (Inr u, s') \<Longrightarrow> user_sourced E (config (the_generator s)) u"
  by (cases s)
     (auto simp: get_user_message_def user_fallback_def user_sourced_def the_generator_def
        split: option.splits sum.splits if_splits)

lemma get_character_message_sourced:
  "get_character_message E fuel recent s = Some (Inr x, s') \<Longrightarrow>
   \<exists>t reply. send_message E t (if recent \<noteq> [] then user (last recent) else ''Hello!'') = Inr reply
            \<and> clean_response (config (the_generator s)) reply = Inr x"
proof (induction fuel arbitrary: s)
  case 0
  then show ?case by simp
next
  case (Suc fuel)
  obtain r1 g w t where ec: "ensure_connected E s = (r1, ((g, w), t))"
    by (metis prod.collapse)
  have cg: "config g = config (the_generator s)"
    using ensure_connected_keeps[OF ec] by (simp add: the_generator_def)
  show ?case
  proof (cases r1)
    case (Some y)
    with Suc.prems ec show ?thesis by auto
  next
    case None
    let ?last = "if recent \<noteq> [] then user (last recent) else ''Hello!''"
    let ?ans = "case send_message E t ?last of Inl x \<Rightarrow> Inl x
                | Inr text \<Rightarrow> clean_response (config g) text"
    show ?thesis
    proof (cases ?ans)
      case (Inr response)
      with Suc.prems ec None have "response = x" by (auto simp: Let_def)
      with Inr cg show ?thesis by (fastforce split: sum.splits if_splits)
    next
      case (Inl y)
      show ?thesis
      proof (cases "y = SessionClosedError")
        case False
        with Inl Suc.prems ec None show ?thesis
          by (cases y) (auto simp: Let_def split: if_splits)
      next
        case True
        let ?s1 = "print_s ''Character AI session expired, attempting to reconnect...'' ((g, w), Suc t)"
        obtain r2 s2 where i: "initialize_char_ai E ?s1 = (r2, s2)" by (metis prod.collapse)
        have c2: "config (the_generator s2) = config (the_generator s)"
          using initialize_keeps_document[OF i] cg by (simp add: the_generator_def print_s_def)
        from Suc.prems ec None Inl True i
        have "(case r2 of Inl x \<Rightarrow> Some (Inl x, s2)
                | Inr True \<Rightarrow> get_character_message E fuel recent s2
                | Inr False \<Rightarrow> Some (Inl (Exception ''Failed to reconnect to Character AI''), s2))
              = Some (Inr x, s')"
          by (simp add: Let_def)
        then have "get_character_message E fuel recent s2 = Some (Inr x, s')"
          by (auto split: sum.splits bool.splits)
        from Suc.IH[OF this] c2 show ?thesis by simp
      qed
    qed
  qed
qed


lemma keeps_complete:
  "the_document s' = the_document s \<Longrightarrow> config (the_generator s') = config (the_generator s) \<Longrightarrow>
   all_complete E (the_generator s') = all_complete E (the_generator s)"
  by (rule all_complete_same) (simp_all add: the_document_def the_generator_def)

lemma initialize_complete:
  "all_complete E (the_generator s) \<Longrightarrow> initialize_char_ai E s = (r, s') \<Longrightarrow>
   all_complete E (the_generator s')"
  using initialize_keeps_document keeps_complete by blast

lemma character_turn_complete:
  assumes "all_complete E (the_generator s)" "the_generator s2 = the_generator s"
    and "user_sourced E (config (the_generator s)) u"
    and "(case get_character_message E fuel recent s2 of
            None \<Rightarrow> None
          | Some (Inl x, s3) \<Rightarrow> Some (Some x, s3)
          | Some (Inr c, s3) \<Rightarrow> Some (add_pair E u c (print_s (label c) s3))) = Some (r, s')"
    and "recent \<noteq> []" "user (last recent) = u"
  shows "all_complete E (the_generator s')"
proof -
  from assms(4) obtain rc s3 where gc: "get_character_message E fuel recent s2 = Some (rc, s3)"
    by (cases "get_character_message E fuel recent s2") auto
  have k3: "the_document s3 = the_document s2" "config (the_generator s3) = config (the_generator s2)"
    using get_character_message_keeps[OF gc] by simp_all
  have a3: "all_complete E (the_generator s3)"
    using keeps_complete[OF k3] assms(1,2) by simp
  show ?thesis
  proof (cases rc)
    case (Inl x)
    with assms(4) gc a3 show ?thesis by simp
  next
    case (Inr c)
    with gc have "get_character_message E fuel recent s2 = Some (Inr c, s3)" by simp
    from get_character_message_sourced[OF this] assms(2,5,6)
    have cs: "\<exists>t reply. send_message E t u = Inr reply
                \<and> clean_response (config (the_generator s)) reply = Inr c"
      by simp
    let ?s4 = "print_s (label c) s3"
    from Inr assms(4) gc have ap: "add_pair E u c ?s4 = (r, s')" by simp
    note A = add_pair_appends[OF ap]
    have cfg: "config (the_generator s3) = config (the_generator s)" using k3(2) assms(2) by simp
    have "complete_pair E (config (the_generator s3))
            \<lparr>user = u, character = c, timestamp = now_text E (snd ?s4)\<rparr>"
      using assms(3) cs cfg by (simp add: complete_pair_def)
    moreover have "the_document s' = append_pair u c (now_text E (snd ?s4)) (the_document s3)"
      using A by simp
    then have "conversation_data (the_generator s')
                 = append_pair u c (now_text E (snd ?s4)) (conversation_data (the_generator s3))"
      by (simp add: the_document_def the_generator_def)
    moreover have "config (the_generator s') = config (the_generator s3)" using A by simp
    ultimately show ?thesis using a3 by (rule all_complete_append[rotated])
  qed
qed

lemma first_turn_complete:
  assumes "all_complete E (the_generator s)" "first_turn E fuel s = Some (r, s')"
  shows "all_complete E (the_generator s')"
proof -
  let ?c = "config (the_generator s)"
  let ?s0 = "print_s (''[Thinking up '' @ persona_name ?c @ [CHR 0x27] @ ''s first message...]'') s"
  obtain ru s1 where gu: "get_user_message E True [] ?s0 = (ru, s1)" by (metis prod.collapse)
  have g1: "the_generator s1 = the_generator s" using get_user_message_keeps[OF gu] by simp
  show ?thesis
  proof (cases ru)
    case (Inl x)
    with assms gu g1 show ?thesis by (auto simp: first_turn_def Let_def)
  next
    case (Inr u)
    have us: "user_sourced E ?c u" using get_user_message_sourced[of E True "[]" ?s0 u s1] gu Inr by simp
    show ?thesis
    proof (cases "character_name ?c")
      case None
      with assms gu Inr g1 show ?thesis by (auto simp: first_turn_def Let_def)
    next
      case (Some cname)
      let ?s1' = "print_s (''[Now '' @ cname @ '' is responding...]'') (print_s (said (persona_name ?c) u) s1)"
      obtain rs s2 where sl: "asyncio_sleep E ?s1' = (rs, s2)" by (metis prod.collapse)
      have g2: "the_generator s2 = the_generator s" using asyncio_sleep_keeps[OF sl] g1 by simp
      show ?thesis
      proof (cases rs)
        case (Some x)
        with assms gu Inr \<open>character_name ?c = Some cname\<close> sl g2 show ?thesis
          by (auto simp: first_turn_def Let_def)
      next
        case None
        let ?recent = "[\<lparr>user = u, character = [], timestamp = []\<rparr>]"
        from None assms(2) gu Inr \<open>character_name ?c = Some cname\<close> sl
        have "(case get_character_message E fuel ?recent s2 of
                 None \<Rightarrow> None
               | Some (Inl x, s3) \<Rightarrow> Some (Some x, s3)
               | Some (Inr c, s3) \<Rightarrow> Some (add_pair E u c (print_s (said cname c) s3))) = Some (r, s')"
          by (simp add: first_turn_def Let_def)
        with assms(1) g2 us show ?thesis
          by (rule character_turn_complete[where recent = ?recent]) simp_all
      qed
    qed
  qed
qed

lemma loop_turn_complete:
  assumes "all_complete E (the_generator s)" "loop_turn E fuel s = Some (r, s')"
  shows "all_complete E (the_generator s')"
proof -
  obtain r0 sa where sl0: "asyncio_sleep E (print_s ''[Taking a break to think...]'' s) = (r0, sa)"
    by (metis prod.collapse)
  have ga: "the_generator sa = the_generator s" using asyncio_sleep_keeps[OF sl0] by simp
  show ?thesis
  proof (cases r0)
    case (Some x)
    with assms sl0 ga show ?thesis by (auto simp: loop_turn_def)
  next
    case None
    let ?c = "config (the_generator sa)"
    let ?pairs = "conversation_pairs (the_document sa)"
    let ?recent = "if ?pairs \<noteq> [] then drop (length ?pairs - 3) ?pairs else []"
    let ?s0 = "print_s ''[Creating the user's next message...]'' sa"
    obtain ru s1 where gu: "get_user_message E False ?recent ?s0 = (ru, s1)" by (metis prod.collapse)
    have g1: "the_generator s1 = the_generator s" using get_user_message_keeps[OF gu] ga by simp
    show ?thesis
    proof (cases ru)
      case (Inl x)
      with assms sl0 None gu g1 show ?thesis by (auto simp: loop_turn_def Let_def)
    next
      case (Inr u)
      have us: "user_sourced E (config (the_generator s)) u"
        using get_user_message_sourced[of E False ?recent ?s0 u s1] gu Inr ga by simp
      let ?s1' = "print_s ''[Waiting for character to respond...]'' (print_s (said (persona_name ?c) u) s1)"
      obtain rs s2 where sl: "asyncio_sleep E ?s1' = (rs, s2)" by (metis prod.collapse)
      have g2: "the_generator s2 = the_generator s" using asyncio_sleep_keeps[OF sl] g1 by simp
      show ?thesis
      proof (cases rs)
        case (Some x)
        with assms sl0 \<open>r0 = None\<close> gu Inr sl g2 show ?thesis by (auto simp: loop_turn_def Let_def)
      next
        case rn: None
        show ?thesis
        proof (cases "character_name ?c")
          case None
          with assms sl0 \<open>r0 = None\<close> gu Inr sl rn g2 show ?thesis
            by (auto simp: loop_turn_def Let_def)
        next
          case (Some cname)
          let ?s2' = "print_s (''[Getting '' @ cname @ [CHR 0x27] @ ''s thoughts...]'') s2"
          let ?ctx = "?recent @ [\<lparr>user = u, character = [], timestamp = []\<rparr>]"
          have g2': "the_generator ?s2' = the_generator s" using g2 by simp
          from assms(2) sl0 \<open>r0 = None\<close> gu Inr sl rn Some
          have "(case get_character_message E fuel ?ctx ?s2' of
                   None \<Rightarrow> None
                 | Some (Inl x, s3) \<Rightarrow> Some (Some x, s3)
                 | Some (Inr c, s3) \<Rightarrow> Some (add_pair E u c (print_s (said cname c) s3))) = Some (r, s')"
            by (simp add: loop_turn_def Let_def)
          with assms(1) g2' us show ?thesis
            by (rule character_turn_complete[where recent = ?ctx]) simp_all
        qed
      qed
    qed
  qed
qed


lemma generation_loop_complete:
  "all_complete E (the_generator s) \<Longrightarrow> generation_loop E fuel s = Some (r, s') \<Longrightarrow>
   all_complete E (the_generator s')"
proof (induction fuel arbitrary: s)
  case 0
  then show ?case by simp
next
  case (Suc fuel)
  show ?case
  proof (cases "pair_count (metadata (the_document s)) < target_message_count (config (the_generator s))")
    case False
    with Suc.prems show ?thesis by simp
  next
    case True
    show ?thesis
    proof (cases "loop_turn E fuel s")
      case None
      with True Suc.prems show ?thesis by simp
    next
      case (Some rs)
      obtain y s1 where rs: "rs = (y, s1)" by (cases rs)
      note lt = \<open>loop_turn E fuel s = Some rs\<close>
      have r1: "all_complete E (the_generator s1)"
        using loop_turn_complete[OF Suc.prems(1)] lt rs by simp
      show ?thesis
      proof (cases y)
        case None
        with True lt rs Suc.prems Suc.IH[OF r1] show ?thesis by simp
      next
        case (Some x)
        show ?thesis
        proof (cases "x = SessionClosedError")
          case False
          with True lt rs Some Suc.prems r1 show ?thesis
            by (cases x) (auto split: if_splits)
        next
          case xc: True
          let ?s1 = "print_s ''Character AI session expired, reconnecting...'' s1"
          obtain r2 s2 where i: "initialize_char_ai E ?s1 = (r2, s2)" by (metis prod.collapse)
          have "all_complete E (the_generator ?s1)" using r1 by simp
          then have r2: "all_complete E (the_generator s2)" using i by (rule initialize_complete)
          from True lt rs Some xc Suc.prems(2) i
          have "(case r2 of Inl x \<Rightarrow> Some (Some x, s2)
                  | Inr True \<Rightarrow> generation_loop E fuel s2
                  | Inr False \<Rightarrow> Some (Some (Exception ''Failed to reconnect to Character AI''), s2))
                = Some (r, s')"
            by simp
          then show ?thesis using r2 Suc.IH[OF r2]
            by (auto split: sum.splits bool.splits)
        qed
      qed
    qed
  qed
qed

lemma run_handlers_keeps: "the_generator (snd (run_handlers r)) = the_generator (snd r)"
  by (cases r) (auto simp: run_handlers_def split: option.splits exn.splits)

lemma run_finally_keeps: "the_generator (snd (run_finally E r)) = the_generator (snd r)"
  by (cases r)
     (auto simp: run_finally_def save_conversation_eq the_generator_def print_s_def
        split: prod.splits option.splits if_splits)

lemma run_generation_complete:
  assumes "all_complete E (the_generator s)" "run_generation E fuel s = Some (r, s')"
  shows "all_complete E (the_generator s')"
proof -
  obtain ri s1 where i: "initialize_char_ai E s = (ri, s1)" by (metis prod.collapse)
  have r1: "all_complete E (the_generator s1)" using initialize_complete[OF assms(1) i] .
  show ?thesis
  proof (cases ri)
    case (Inl x)
    with assms(2) i r1 show ?thesis by (auto simp: run_generation_def)
  next
    case (Inr ok)
    show ?thesis
    proof (cases ok)
      case False
      with assms(2) i Inr r1 show ?thesis by (auto simp: run_generation_def)
    next
      case True
      with assms(2) i Inr obtain rb where
        b: "generation_body E fuel s1 = Some rb" and f: "run_finally E (run_handlers rb) = (r, s')"
        by (auto simp: run_generation_def split: option.splits)
      have "all_complete E (the_generator (snd rb))"
      proof (cases "first_turn E fuel s1")
        case None
        with b show ?thesis by (simp add: generation_body_def)
      next
        case (Some rf)
        obtain y s2 where rf: "rf = (y, s2)" by (cases rf)
        have r2: "all_complete E (the_generator s2)"
          using first_turn_complete[OF r1] Some rf by simp
        show ?thesis
        proof (cases y)
          case None
          with b Some rf have "generation_loop E fuel s2 = Some (fst rb, snd rb)"
            by (simp add: generation_body_def)
          then show ?thesis using r2 by (rule generation_loop_complete[rotated])
        next
          case (Some x)
          with b \<open>first_turn E fuel s1 = Some rf\<close> rf r2 show ?thesis
            by (auto simp: generation_body_def)
        qed
      qed
      then show ?thesis
        using f run_finally_keeps[of E "run_handlers rb"] run_handlers_keeps[of rb] by simp
    qed
  qed
qed

lemma constructor_complete:
  "StandaloneRoleplayGenerator B w = (Inr g, w') \<Longrightarrow> all_complete E g"
  using constructor_document[of B w g w']
  by (auto simp: all_complete_def initial_document_def)

lemma main_complete:
  assumes "main B E fuel w = Some (r, Some g, w')"
  shows "all_complete E g"
proof -
  obtain rc w1 where c: "StandaloneRoleplayGenerator B (banner w) = (rc, w1)" by (metis prod.collapse)
  from assms c obtain g0 where g0: "rc = Inr g0"
    by (cases rc) (auto simp: main_def)
  have r0: "all_complete E g0" using c g0 constructor_complete by blast
  let ?s0 = "((g0, print ''Press Ctrl+C anytime to save and stop''
                         (print ''Starting the conversation generator...'' w1)), 0::nat)"
  from assms c g0 obtain rr s' where rg: "run_generation E fuel ?s0 = Some (rr, s')"
    by (auto simp: main_def split: option.splits)
  have "all_complete E (the_generator s')"
    using run_generation_complete[OF _ rg] r0 by (simp add: the_generator_def)
  moreover from assms c g0 rg have "g = the_generator s'"
    by (cases s') (auto simp: main_def the_generator_def split: prod.splits option.splits exn.splits)
  ultimately show ?thesis by simp
qed


lemma first_message_fallback:
  assumes "interests (config g) = Some its" "speaking_style (config g) \<noteq> None"
    "generate_content E t = Inl x" "is_Exception x"
  shows "fst (get_user_message E True [] ((g, w), t)) = Inr (first_fallback (persona_name (config g)) its)"
  using assms
  by (auto simp: get_user_message_def build_prompt_def user_fallback_def)

text \<open>
  Claim C2, as the code has it. Every pair a run holds is complete: its user text is the
  normalized reply of the text service or a fallback utterance, and its character text
  is the normalized reply of the chat service to that user text. This holds for the
  generator \<open>main\<close> is left with, and it is kept by \<open>run_generation\<close>, by the first
  turn and by a round of the loop. When the text service raises on the first message,
  with the interests and the speaking style of the persona configured, the user text is
  the fixed first fallback utterance, which is not empty. A turn that raises, because a
  side raised or the task was cancelled between the two sides, leaves the document as
  it was. Nothing checks whether a text that came back is empty, and nothing stands in
  for a character text.
\<close>

theorem turns_append_complete_pairs:
  "(\<forall>r g w'. main B E fuel w = Some (r, Some g, w') \<longrightarrow>
      (\<forall>p \<in> set (conversation_pairs (conversation_data g)). complete_pair E (config g) p))
 \<and> (\<forall>r s'. all_complete E (the_generator s) \<and> run_generation E fuel s = Some (r, s') \<longrightarrow>
      all_complete E (the_generator s'))
 \<and> (\<forall>r s'. all_complete E (the_generator s) \<and> first_turn E fuel s = Some (r, s') \<longrightarrow>
      all_complete E (the_generator s'))
 \<and> (\<forall>r s'. all_complete E (the_generator s) \<and> loop_turn E fuel s = Some (r, s') \<longrightarrow>
      all_complete E (the_generator s'))
 \<and> (interests (config g0) = Some its \<and> speaking_style (config g0) \<noteq> None
      \<and> generate_content E t = Inl x \<and> is_Exception x \<longrightarrow>
      fst (get_user_message E True [] ((g0, w0), t))
        = Inr (first_fallback (persona_name (config g0)) its)
      \<and> first_fallback (persona_name (config g0)) its \<noteq> [])
 \<and> (\<forall>y s'. first_turn E fuel s = Some (Some y, s') \<longrightarrow> the_document s' = the_document s)
 \<and> (\<forall>y s'. loop_turn E fuel s = Some (Some y, s') \<longrightarrow> the_document s' = the_document s)"
proof (intro conjI allI impI)
  fix r g w' assume "main B E fuel w = Some (r, Some g, w')"
  then have "all_complete E g" by (rule main_complete)
  then show "\<forall>p \<in> set (conversation_pairs (conversation_data g)). complete_pair E (config g) p"
    by (simp add: all_complete_def)
next
  fix r s' assume "all_complete E (the_generator s) \<and> run_generation E fuel s = Some (r, s')"
  then show "all_complete E (the_generator s')" using run_generation_complete by blast
next
  fix r s' assume "all_complete E (the_generator s) \<and> first_turn E fuel s = Some (r, s')"
  then show "all_complete E (the_generator s')" using first_turn_complete by blast
next
  fix r s' assume "all_complete E (the_generator s) \<and> loop_turn E fuel s = Some (r, s')"
  then show "all_complete E (the_generator s')" using loop_turn_complete by blast
next
  assume "interests (config g0) = Some its \<and> speaking_style (config g0) \<noteq> None
      \<and> generate_content E t = Inl x \<and> is_Exception x"
  then show "fst (get_user_message E True [] ((g0, w0), t))
        = Inr (first_fallback (persona_name (config g0)) its)"
    using first_message_fallback by blast
next
  show "first_fallback (persona_name (config g0)) its \<noteq> []" by (rule fallback_nonempty)
next
  fix y s' assume "first_turn E fuel s = Some (Some y, s')"
  then show "the_document s' = the_document s" by (rule first_turn_raises)
next
  fix y s' assume "loop_turn E fuel s = Some (Some y, s')"
  then show "the_document s' = the_document s" by (rule loop_turn_raises)
qed

text \<open>
  Claim C2 as stated fails when the text service answers with blanks: the run appends
  a pair whose user text is empty.
\<close>

theorem empty_user_text_is_stored:
  "generate_content silent_user_env 0 = Inr ''  ''
 \<and> map_option (conversation_pairs \<circ> conversation_data)
       (fst (snd (the (main sample_boot silent_user_env 5 empty_world))))
     = Some [\<lparr>user = [], character = ''Hello'', timestamp = ''2024-01-01 12:00:00''\<rparr>]
 \<and> main sample_boot silent_user_env 5 empty_world \<noteq> None"
  by code_simp

theorem turns_append_complete_pairs_witness:
  "main sample_boot sample_env 5 empty_world \<noteq> None
 \<and> map_option (conversation_pairs \<circ> conversation_data)
       (fst (snd (the (main sample_boot sample_env 5 empty_world))))
     = Some [\<lparr>user = ''Hi'', character = ''Hello'', timestamp = ''2024-01-01 12:00:00''\<rparr>]
 \<and> complete_pair sample_env sample_config
       \<lparr>user = ''Hi'', character = ''Hello'', timestamp = ''2024-01-01 12:00:00''\<rparr>
 \<and> generate_content failing_user_env 0 = Inl (Exception ''timed out'')
 \<and> fst (get_user_message failing_user_env True [] fresh_state)
     = Inr (first_fallback ''User'' ''books'')
 \<and> map_option fst (first_turn interrupted_env 5 fresh_state) = Some (Some CancelledError)
 \<and> the_document (snd (the (first_turn interrupted_env 5 fresh_state))) = the_document fresh_state
 \<and> map_option fst (first_turn sample_env 5 fresh_state) = Some None
 \<and> conversation_pairs (the_document (snd (the (first_turn sample_env 5 fresh_state)))) \<noteq> []
 \<and> all_complete sample_env (the_generator (snd (the (first_turn sample_env 5 fresh_state))))
 \<and> map_option fst (loop_turn sample_env 5 (snd (the (first_turn sample_env 5 fresh_state))))
     = Some (Some attribute_error)
 \<and> the_document (snd (the (loop_turn sample_env 5 (snd (the (first_turn sample_env 5 fresh_state))))))
     = the_document (snd (the (first_turn sample_env 5 fresh_state)))
 \<and> all_complete sample_env
       (the_generator (snd (the (loop_turn sample_env 5 (snd (the (first_turn sample_env 5 fresh_state)))))))
 \<and> all_complete sample_env (the_generator (snd (the (run_generation sample_env 5 fresh_state))))"
proof -
  let ?g = "sample_generator\<lparr>conversation_data := growing_document 0\<rparr>"
  let ?x = "Exception ''timed out''"
  let ?p = "\<lparr>user = ''Hi'', character = ''Hello'', timestamp = ''2024-01-01 12:00:00''\<rparr>"
  let ?s1 = "snd (the (first_turn sample_env 5 fresh_state))"
  let ?s2 = "snd (the (loop_turn sample_env 5 ?s1))"
  let ?m = "main sample_boot sample_env 5 empty_world"
  let ?gm = "the (fst (snd (the ?m)))"
  have fs: "fresh_state = ((?g, empty_world), 0)" by (simp add: fresh_state_def)
  have sel: "\<And>r y. map_option fst r = Some y \<Longrightarrow> r = Some (y, snd (the r))"
    by (case_tac r) auto
  have sel3: "\<And>r. r \<noteq> None \<Longrightarrow> fst (snd (the r)) \<noteq> None \<Longrightarrow>
                r = Some (fst (the r), Some (the (fst (snd (the r)))), snd (snd (the r)))"
    by auto
  have m1: "?m \<noteq> None" by code_simp
  have m2: "fst (snd (the ?m)) \<noteq> None" by code_simp
  have m3: "map_option (conversation_pairs \<circ> conversation_data) (fst (snd (the ?m))) = Some [?p]"
    by code_simp
  have m4: "map_option config (fst (snd (the ?m))) = Some sample_config"
    by code_simp
  from m2 m3 have m5: "conversation_pairs (conversation_data ?gm) = [?p]" by auto
  from m2 m4 have m6: "config ?gm = sample_config" by auto
  from turns_append_complete_pairs[where B = sample_boot and E = sample_env and fuel = 5
       and w = "empty_world :: conversation_data world", THEN conjunct1] sel3[OF m1 m2]
  have "\<forall>p \<in> set (conversation_pairs (conversation_data ?gm)). complete_pair sample_env (config ?gm) p"
    by blast
  then have c1: "complete_pair sample_env sample_config ?p"
    by (simp add: m5 m6)
  have h1: "interests (config ?g) = Some ''books''" "speaking_style (config ?g) \<noteq> None"
    "generate_content failing_user_env 0 = Inl ?x" "is_Exception ?x"
    "persona_name (config ?g) = ''User''"
    by code_simp+
  note A = turns_append_complete_pairs[where E = failing_user_env and ?g0.0 = ?g
       and its = "''books''" and t = 0 and x = ?x and ?w0.0 = "empty_world :: conversation_data world",
       THEN conjunct2, THEN conjunct2, THEN conjunct2, THEN conjunct2, THEN conjunct1]
  from A h1(1-4)
  have "fst (get_user_message failing_user_env True [] ((?g, empty_world), 0))
          = Inr (first_fallback (persona_name (config ?g)) ''books'')"
    by blast
  then have c2: "fst (get_user_message failing_user_env True [] fresh_state)
                   = Inr (first_fallback ''User'' ''books'')"
    by (simp only: h1(5) fs[symmetric])
  have b1: "map_option fst (first_turn interrupted_env 5 fresh_state) = Some (Some CancelledError)"
    by code_simp
  from turns_append_complete_pairs[where E = interrupted_env and fuel = 5 and s = fresh_state,
       THEN conjunct2, THEN conjunct2, THEN conjunct2, THEN conjunct2, THEN conjunct2, THEN conjunct1]
    sel[OF b1]
  have c3: "the_document (snd (the (first_turn interrupted_env 5 fresh_state))) = the_document fresh_state"
    by meson
  have e0: "all_complete sample_env (the_generator fresh_state)"
    by (simp add: all_complete_def fresh_state_def the_generator_def initial_document_def)
  have d1: "map_option fst (first_turn sample_env 5 fresh_state) = Some None"
    by code_simp
  have d2: "conversation_pairs (the_document ?s1) \<noteq> []"
    by code_simp
  from turns_append_complete_pairs[where E = sample_env and fuel = 5 and s = fresh_state,
       THEN conjunct2, THEN conjunct2, THEN conjunct1] e0 sel[OF d1]
  have c4: "all_complete sample_env (the_generator ?s1)"
    by meson
  have d3: "map_option fst (loop_turn sample_env 5 ?s1) = Some (Some attribute_error)"
    by code_simp
  from turns_append_complete_pairs[where E = sample_env and fuel = 5 and s = ?s1,
       THEN conjunct2, THEN conjunct2, THEN conjunct2, THEN conjunct2, THEN conjunct2, THEN conjunct2]
    sel[OF d3]
  have c5: "the_document ?s2 = the_document ?s1"
    by meson
  from turns_append_complete_pairs[where E = sample_env and fuel = 5 and s = ?s1,
       THEN conjunct2, THEN conjunct2, THEN conjunct2, THEN conjunct1] c4 sel[OF d3]
  have c6: "all_complete sample_env (the_generator ?s2)"
    by meson
  have d4: "run_generation sample_env 5 fresh_state \<noteq> None"
    by code_simp
  then have "run_generation sample_env 5 fresh_state
               = Some (fst (the (run_generation sample_env 5 fresh_state)),
                       snd (the (run_generation sample_env 5 fresh_state)))"
    by auto
  with turns_append_complete_pairs[where E = sample_env and fuel = 5 and s = fresh_state,
       THEN conjunct2, THEN conjunct1] e0
  have c7: "all_complete sample_env (the_generator (snd (the (run_generation sample_env 5 fresh_state))))"
    by meson
  from m1 m3 c1 h1(3) c2 b1 c3 d1 d2 c4 d3 c5 c6 c7 show ?thesis
    by (intro conjI)
qed

subsection \<open>What a run can raise\<close>

lemma raisable_simps [simp]:
  "raisable E (Exception m)" "raisable E SessionClosedError"
  "raisable E (key_error k)" "raisable E attribute_error"
  by (auto simp: raisable_def key_error_def attribute_error_def)

























subsection \<open>How the process ends\<close>















subsection \<open>A run holds only generators of that kind\<close>

text \<open>
  The generator that \<open>main\<close> is left with, after any run and under any environment,
  is one of those \<open>reachable\<close> describes; so is the generator at every step on the
  way, since each step is one of the functions below.
\<close>

lemma initialize_reachable:
  "reachable (the_generator s) \<Longrightarrow> initialize_char_ai E s = (r, s') \<Longrightarrow>
   reachable (the_generator s')"
  by (cases s, cases s') (auto simp: the_generator_def intro: reachable.connected)

lemma ensure_connected_reachable:
  "reachable (the_generator s) \<Longrightarrow> ensure_connected E s = (r, s') \<Longrightarrow>
   reachable (the_generator s')"
  by (auto simp: ensure_connected_def split: if_splits prod.splits sum.splits bool.splits
      dest: initialize_reachable)

lemma get_character_message_reachable:
  "reachable (the_generator s) \<Longrightarrow> get_character_message E fuel recent s = Some (r, s') \<Longrightarrow>
   reachable (the_generator s')"
proof (induction fuel arbitrary: s)
  case 0
  then show ?case by simp
next
  case (Suc fuel)
  obtain r1 g w t where ec: "ensure_connected E s = (r1, ((g, w), t))"
    by (metis prod.collapse)
  have k1: "reachable g"
    using ensure_connected_reachable[OF Suc.prems(1) ec] by (simp add: the_generator_def)
  show ?case
  proof (cases r1)
    case (Some x)
    with Suc.prems ec k1 show ?thesis by (auto simp: the_generator_def)
  next
    case None
    let ?last = "if recent \<noteq> [] then user (last recent) else ''Hello!''"
    let ?ans = "case send_message E t ?last of Inl x \<Rightarrow> Inl x
                | Inr text \<Rightarrow> clean_response (config g) text"
    show ?thesis
    proof (cases ?ans)
      case (Inr response)
      with Suc.prems ec None k1 show ?thesis
        by (auto simp: Let_def the_generator_def)
    next
      case (Inl x)
      show ?thesis
      proof (cases "x = SessionClosedError")
        case False
        with Inl Suc.prems ec None k1 show ?thesis
          by (cases x) (auto simp: Let_def the_generator_def split: if_splits)
      next
        case True
        let ?s1 = "print_s ''Character AI session expired, attempting to reconnect...'' ((g, w), Suc t)"
        obtain r2 s2 where i: "initialize_char_ai E ?s1 = (r2, s2)" by (metis prod.collapse)
        have "reachable (the_generator ?s1)" using k1 by (simp add: the_generator_def print_s_def)
        then have k2: "reachable (the_generator s2)" using i by (rule initialize_reachable)
        from Suc.prems ec None Inl True i
        have "(case r2 of Inl x \<Rightarrow> Some (Inl x, s2)
                | Inr True \<Rightarrow> get_character_message E fuel recent s2
                | Inr False \<Rightarrow> Some (Inl (Exception ''Failed to reconnect to Character AI''), s2))
              = Some (r, s')"
          by (simp add: Let_def)
        then show ?thesis using k2 Suc.IH[OF k2]
          by (auto split: sum.splits bool.splits)
      qed
    qed
  qed
qed

lemma add_pair_reachable:
  "reachable (the_generator s) \<Longrightarrow> add_pair E u c s = (r, s') \<Longrightarrow> reachable (the_generator s')"
  by (cases s, cases s')
     (auto simp: add_pair_def the_generator_def split: prod.splits intro: reachable.appended)

lemma character_turn_reachable:
  assumes "reachable (the_generator s)" "the_generator s2 = the_generator s"
    and "(case get_character_message E fuel recent s2 of
            None \<Rightarrow> None
          | Some (Inl x, s3) \<Rightarrow> Some (Some x, s3)
          | Some (Inr c, s3) \<Rightarrow> Some (add_pair E u c (print_s (label c) s3))) = Some (r, s')"
  shows "reachable (the_generator s')"
proof -
  from assms(3) obtain rc s3 where gc: "get_character_message E fuel recent s2 = Some (rc, s3)"
    by (cases "get_character_message E fuel recent s2") auto
  have r3: "reachable (the_generator s3)"
    using get_character_message_reachable[OF _ gc] assms(1,2) by simp
  show ?thesis
  proof (cases rc)
    case (Inl x)
    with assms(3) gc r3 show ?thesis by simp
  next
    case (Inr c)
    with assms(3) gc have "add_pair E u c (print_s (label c) s3) = (r, s')" by simp
    moreover have "reachable (the_generator (print_s (label c) s3))" using r3 by simp
    ultimately show ?thesis by (rule add_pair_reachable[rotated])
  qed
qed

lemma first_turn_reachable:
  assumes "reachable (the_generator s)" "first_turn E fuel s = Some (r, s')"
  shows "reachable (the_generator s')"
proof -
  let ?c = "config (the_generator s)"
  let ?s0 = "print_s (''[Thinking up '' @ persona_name ?c @ [CHR 0x27] @ ''s first message...]'') s"
  obtain ru s1 where gu: "get_user_message E True [] ?s0 = (ru, s1)" by (metis prod.collapse)
  have g1: "the_generator s1 = the_generator s" using get_user_message_keeps[OF gu] by simp
  show ?thesis
  proof (cases ru)
    case (Inl x)
    with assms gu g1 show ?thesis by (auto simp: first_turn_def Let_def)
  next
    case (Inr u)
    show ?thesis
    proof (cases "character_name ?c")
      case None
      with assms gu Inr g1 show ?thesis by (auto simp: first_turn_def Let_def)
    next
      case (Some cname)
      let ?s1' = "print_s (''[Now '' @ cname @ '' is responding...]'') (print_s (said (persona_name ?c) u) s1)"
      obtain rs s2 where sl: "asyncio_sleep E ?s1' = (rs, s2)" by (metis prod.collapse)
      have g2: "the_generator s2 = the_generator s" using asyncio_sleep_keeps[OF sl] g1 by simp
      show ?thesis
      proof (cases rs)
        case (Some x)
        with assms gu Inr \<open>character_name ?c = Some cname\<close> sl g2 show ?thesis
          by (auto simp: first_turn_def Let_def)
      next
        case None
        with assms(2) gu Inr \<open>character_name ?c = Some cname\<close> sl
        have "(case get_character_message E fuel [\<lparr>user = u, character = [], timestamp = []\<rparr>] s2 of
                 None \<Rightarrow> None
               | Some (Inl x, s3) \<Rightarrow> Some (Some x, s3)
               | Some (Inr c, s3) \<Rightarrow> Some (add_pair E u c (print_s (said cname c) s3))) = Some (r, s')"
          by (simp add: first_turn_def Let_def)
        with assms(1) g2 show ?thesis by (rule character_turn_reachable)
      qed
    qed
  qed
qed

lemma loop_turn_reachable:
  assumes "reachable (the_generator s)" "loop_turn E fuel s = Some (r, s')"
  shows "reachable (the_generator s')"
proof -
  obtain r0 sa where sl0: "asyncio_sleep E (print_s ''[Taking a break to think...]'' s) = (r0, sa)"
    by (metis prod.collapse)
  have ga: "the_generator sa = the_generator s" using asyncio_sleep_keeps[OF sl0] by simp
  show ?thesis
  proof (cases r0)
    case (Some x)
    with assms sl0 ga show ?thesis by (auto simp: loop_turn_def)
  next
    case None
    let ?c = "config (the_generator sa)"
    let ?pairs = "conversation_pairs (the_document sa)"
    let ?recent = "if ?pairs \<noteq> [] then drop (length ?pairs - 3) ?pairs else []"
    let ?s0 = "print_s ''[Creating the user's next message...]'' sa"
    obtain ru s1 where gu: "get_user_message E False ?recent ?s0 = (ru, s1)" by (metis prod.collapse)
    have g1: "the_generator s1 = the_generator s" using get_user_message_keeps[OF gu] ga by simp
    show ?thesis
    proof (cases ru)
      case (Inl x)
      with assms sl0 None gu g1 show ?thesis by (auto simp: loop_turn_def Let_def)
    next
      case (Inr u)
      let ?s1' = "print_s ''[Waiting for character to respond...]'' (print_s (said (persona_name ?c) u) s1)"
      obtain rs s2 where sl: "asyncio_sleep E ?s1' = (rs, s2)" by (metis prod.collapse)
      have g2: "the_generator s2 = the_generator s" using asyncio_sleep_keeps[OF sl] g1 by simp
      show ?thesis
      proof (cases rs)
        case (Some x)
        with assms sl0 \<open>r0 = None\<close> gu Inr sl g2 show ?thesis by (auto simp: loop_turn_def Let_def)
      next
        case rn: None
        show ?thesis
        proof (cases "character_name ?c")
          case None
          with assms sl0 \<open>r0 = None\<close> gu Inr sl rn g2 show ?thesis
            by (auto simp: loop_turn_def Let_def)
        next
          case (Some cname)
          let ?s2' = "print_s (''[Getting '' @ cname @ [CHR 0x27] @ ''s thoughts...]'') s2"
          have g2': "the_generator ?s2' = the_generator s" using g2 by simp
          from assms(2) sl0 \<open>r0 = None\<close> gu Inr sl rn Some
          have "(case get_character_message E fuel
                        (?recent @ [\<lparr>user = u, character = [], timestamp = []\<rparr>]) ?s2' of
                   None \<Rightarrow> None
                 | Some (Inl x, s3) \<Rightarrow> Some (Some x, s3)
                 | Some (Inr c, s3) \<Rightarrow> Some (add_pair E u c (print_s (said cname c) s3))) = Some (r, s')"
            by (simp add: loop_turn_def Let_def)
          with assms(1) g2' show ?thesis by (rule character_turn_reachable)
        qed
      qed
    qed
  qed
qed


lemma generation_loop_reachable:
  "reachable (the_generator s) \<Longrightarrow> generation_loop E fuel s = Some (r, s') \<Longrightarrow>
   reachable (the_generator s')"
proof (induction fuel arbitrary: s)
  case 0
  then show ?case by simp
next
  case (Suc fuel)
  show ?case
  proof (cases "pair_count (metadata (the_document s)) < target_message_count (config (the_generator s))")
    case False
    with Suc.prems show ?thesis by simp
  next
    case True
    show ?thesis
    proof (cases "loop_turn E fuel s")
      case None
      with True Suc.prems show ?thesis by simp
    next
      case (Some rs)
      obtain y s1 where rs: "rs = (y, s1)" by (cases rs)
      note lt = \<open>loop_turn E fuel s = Some rs\<close>
      have r1: "reachable (the_generator s1)"
        using loop_turn_reachable[OF Suc.prems(1)] lt rs by simp
      show ?thesis
      proof (cases y)
        case None
        with True lt rs Suc.prems Suc.IH[OF r1] show ?thesis by simp
      next
        case (Some x)
        show ?thesis
        proof (cases "x = SessionClosedError")
          case False
          with True lt rs Some Suc.prems r1 show ?thesis
            by (cases x) (auto split: if_splits)
        next
          case xc: True
          let ?s1 = "print_s ''Character AI session expired, reconnecting...'' s1"
          obtain r2 s2 where i: "initialize_char_ai E ?s1 = (r2, s2)" by (metis prod.collapse)
          have "reachable (the_generator ?s1)" using r1 by simp
          then have r2: "reachable (the_generator s2)" using i by (rule initialize_reachable)
          from True lt rs Some xc Suc.prems(2) i
          have "(case r2 of Inl x \<Rightarrow> Some (Some x, s2)
                  | Inr True \<Rightarrow> generation_loop E fuel s2
                  | Inr False \<Rightarrow> Some (Some (Exception ''Failed to reconnect to Character AI''), s2))
                = Some (r, s')"
            by simp
          then show ?thesis using r2 Suc.IH[OF r2]
            by (auto split: sum.splits bool.splits)
        qed
      qed
    qed
  qed
qed

lemma run_generation_reachable:
  assumes "reachable (the_generator s)" "run_generation E fuel s = Some (r, s')"
  shows "reachable (the_generator s')"
proof -
  obtain ri s1 where i: "initialize_char_ai E s = (ri, s1)" by (metis prod.collapse)
  have r1: "reachable (the_generator s1)" using initialize_reachable[OF assms(1) i] .
  show ?thesis
  proof (cases ri)
    case (Inl x)
    with assms(2) i r1 show ?thesis by (auto simp: run_generation_def)
  next
    case (Inr ok)
    show ?thesis
    proof (cases ok)
      case False
      with assms(2) i Inr r1 show ?thesis by (auto simp: run_generation_def)
    next
      case True
      with assms(2) i Inr obtain rb where
        b: "generation_body E fuel s1 = Some rb" and f: "run_finally E (run_handlers rb) = (r, s')"
        by (auto simp: run_generation_def split: option.splits)
      have "reachable (the_generator (snd rb))"
      proof (cases "first_turn E fuel s1")
        case None
        with b show ?thesis by (simp add: generation_body_def)
      next
        case (Some rf)
        obtain y s2 where rf: "rf = (y, s2)" by (cases rf)
        have r2: "reachable (the_generator s2)"
          using first_turn_reachable[OF r1] Some rf by simp
        show ?thesis
        proof (cases y)
          case None
          with b Some rf have "generation_loop E fuel s2 = Some (fst rb, snd rb)"
            by (simp add: generation_body_def)
          then show ?thesis using r2 by (rule generation_loop_reachable[rotated])
        next
          case (Some x)
          with b \<open>first_turn E fuel s1 = Some rf\<close> rf r2 show ?thesis
            by (auto simp: generation_body_def)
        qed
      qed
      then show ?thesis
        using f run_finally_keeps[of E "run_handlers rb"] run_handlers_keeps[of rb] by simp
    qed
  qed
qed

lemma main_reachable:
  assumes "main B E fuel w = Some (r, Some g, w')"
  shows "reachable g"
proof -
  obtain rc w1 where c: "StandaloneRoleplayGenerator B (banner w) = (rc, w1)" by (metis prod.collapse)
  from assms c obtain g0 where g0: "rc = Inr g0"
    by (cases rc) (auto simp: main_def)
  have r0: "reachable g0" using c g0 reachable.constructed by blast
  let ?s0 = "((g0, print ''Press Ctrl+C anytime to save and stop''
                         (print ''Starting the conversation generator...'' w1)), 0::nat)"
  from assms c g0 obtain rr s' where rg: "run_generation E fuel ?s0 = Some (rr, s')"
    by (auto simp: main_def split: option.splits)
  have "reachable (the_generator s')"
    using run_generation_reachable[OF _ rg] r0 by (simp add: the_generator_def)
  moreover from assms c g0 rg have "g = the_generator s'"
    by (cases s') (auto simp: main_def the_generator_def split: prod.splits option.splits exn.splits)
  ultimately show ?thesis by simp
qed

end
